theory Spec2Isabelle
  imports Main
begin

section \<open>Strings\<close>

text \<open>
  A Go string is a sequence of bytes; it is modelled as a \<^typ>\<open>string\<close>, one
  \<^typ>\<open>char\<close> per byte, so that \<^term>\<open>length s\<close> is Go's \<^verbatim>\<open>len(s)\<close>.
\<close>

text \<open>
  \<^verbatim>\<open>strings.Contains(s, substr)\<close>: some suffix of \<open>s\<close> starts with \<open>substr\<close>.
\<close>

fun Contains :: "string \<Rightarrow> string \<Rightarrow> bool" where
  "Contains [] substr = (substr = [])"
| "Contains (c # cs) substr = (take (length substr) (c # cs) = substr \<or> Contains cs substr)"

text \<open>
  \<^verbatim>\<open>strings.ContainsAny(s, chars)\<close> for a set \<open>chars\<close> of ASCII characters: some byte
  of \<open>s\<close> is one of them.
\<close>

definition ContainsAny :: "string \<Rightarrow> string \<Rightarrow> bool" where
  "ContainsAny s chars = list_ex (\<lambda>c. c \<in> set chars) s"

definition HasSuffix :: "string \<Rightarrow> string \<Rightarrow> bool" where
  "HasSuffix s suffix = (length suffix \<le> length s \<and> drop (length s - length suffix) s = suffix)"

definition TrimSuffix :: "string \<Rightarrow> string \<Rightarrow> string" where
  "TrimSuffix s suffix = (if HasSuffix s suffix then take (length s - length suffix) s else s)"

text \<open>
  The UTF-8 encodings of the runes for which \<^verbatim>\<open>unicode.IsSpace\<close> holds: tab, line feed,
  vertical tab, form feed, carriage return, space, U+0085, U+00A0, U+1680, U+2000 to
  U+200A, U+2028, U+2029, U+202F, U+205F and U+3000.
\<close>

definition space_runes :: "string list" where
  "space_runes =
    [ [CHR 0x09], [CHR 0x0A], [CHR 0x0B], [CHR 0x0C], [CHR 0x0D], [CHR 0x20],
     [CHR 0xC2, CHR 0x85], [CHR 0xC2, CHR 0xA0],
     [CHR 0xE1, CHR 0x9A, CHR 0x80],
     [CHR 0xE2, CHR 0x80, CHR 0x80], [CHR 0xE2, CHR 0x80, CHR 0x81],
     [CHR 0xE2, CHR 0x80, CHR 0x82], [CHR 0xE2, CHR 0x80, CHR 0x83],
     [CHR 0xE2, CHR 0x80, CHR 0x84], [CHR 0xE2, CHR 0x80, CHR 0x85],
     [CHR 0xE2, CHR 0x80, CHR 0x86], [CHR 0xE2, CHR 0x80, CHR 0x87],
     [CHR 0xE2, CHR 0x80, CHR 0x88], [CHR 0xE2, CHR 0x80, CHR 0x89],
     [CHR 0xE2, CHR 0x80, CHR 0x8A],
     [CHR 0xE2, CHR 0x80, CHR 0xA8], [CHR 0xE2, CHR 0x80, CHR 0xA9],
     [CHR 0xE2, CHR 0x80, CHR 0xAF],
     [CHR 0xE2, CHR 0x81, CHR 0x9F],
     [CHR 0xE3, CHR 0x80, CHR 0x80] ]"

text \<open>
  The number of bytes of the first of the encodings \<open>es\<close> that \<open>s\<close> starts with, and 0
  when it starts with none.
\<close>

fun rune_width :: "string list \<Rightarrow> string \<Rightarrow> nat" where
  "rune_width [] s = 0"
| "rune_width (e # es) s = (if take (length e) s = e then length e else rune_width es s)"

fun trim_runes :: "string list \<Rightarrow> string \<Rightarrow> string" where
  "trim_runes es [] = []"
| "trim_runes es (c # cs) =
    (case rune_width es (c # cs) of
       0 \<Rightarrow> c # cs
     | Suc n \<Rightarrow> trim_runes es (drop n cs))"

text \<open>
  \<^verbatim>\<open>strings.TrimSpace\<close>: the white-space runes are cut off the front, then off the back
  (the back is the front of the reversed string, against the reversed encodings).
\<close>

definition TrimSpace :: "string \<Rightarrow> string" where
  "TrimSpace s = rev (trim_runes (map rev space_runes) (rev (trim_runes space_runes s)))"

text \<open>
  \<^verbatim>\<open>strconv.Atoi\<close> where \<^verbatim>\<open>int\<close> has 64 bits: an optional sign and at least one decimal
  digit, nothing else; \<open>None\<close> is the syntax or range error.
\<close>

definition digit_val :: "char \<Rightarrow> int option" where
  "digit_val ch =
    (let b = (of_char ch :: int) in if 48 \<le> b \<and> b \<le> 57 then Some (b - 48) else None)"

fun parse_digits :: "int \<Rightarrow> string \<Rightarrow> int option" where
  "parse_digits n [] = Some n"
| "parse_digits n (ch # s) =
    (case digit_val ch of None \<Rightarrow> None | Some d \<Rightarrow> parse_digits (n * 10 + d) s)"

definition Atoi :: "string \<Rightarrow> int option" where
  "Atoi s0 =
    (case s0 of
       [] \<Rightarrow> None
     | c # cs \<Rightarrow>
        (let s = (if c = CHR ''-'' \<or> c = CHR ''+'' then cs else s0) in
         if s = [] then None
         else
           (case parse_digits 0 s of
              None \<Rightarrow> None
            | Some n \<Rightarrow>
               if c = CHR ''-'' then (if n \<le> 9223372036854775808 then Some (- n) else None)
               else (if n < 9223372036854775808 then Some n else None))))"

section \<open>Runes\<close>

text \<open>
  A rune is a Unicode code point. \<^verbatim>\<open>range\<close> over a string reads it rune by rune, as
  \<^verbatim>\<open>utf8.DecodeRuneInString\<close> does: \<open>DecodeRune\<close> gives the rune that the string starts
  with and the number of bytes of its encoding, and for bytes that are no valid encoding
  the rune U+FFFD and the width 1. The first byte decides the width and the range of
  the second byte (\<open>second_byte\<close>; the ranges exclude the encodings that are too long, the
  surrogates and the runes above U+10FFFF); the later bytes are in 0x80 to 0xBF. The masks
  and shifts of the library are written as remainders and products.
\<close>

type_synonym rune = nat

definition RuneError :: rune where
  "RuneError = 0xFFFD"

definition continuation :: "char \<Rightarrow> bool" where
  "continuation c \<longleftrightarrow> 0x80 \<le> (of_char c :: nat) \<and> (of_char c :: nat) \<le> 0xBF"

definition second_byte :: "nat \<Rightarrow> char \<Rightarrow> bool" where
  "second_byte b0 c \<longleftrightarrow>
    (if b0 = 0xE0 then 0xA0 else if b0 = 0xF0 then 0x90 else 0x80) \<le> (of_char c :: nat) \<and>
    (of_char c :: nat) \<le> (if b0 = 0xED then 0x9F else if b0 = 0xF4 then 0x8F else 0xBF)"

definition DecodeRune :: "string \<Rightarrow> rune \<times> nat" where
  "DecodeRune s =
    (case s of
       [] \<Rightarrow> (RuneError, 0)
     | c0 # s1 \<Rightarrow>
        (let b0 = (of_char c0 :: nat) in
         if b0 < 0x80 then (b0, 1)
         else if b0 < 0xC2 \<or> 0xF4 < b0 then (RuneError, 1)
         else if b0 < 0xE0 then
           (case s1 of
              c1 # s2 \<Rightarrow>
                if second_byte b0 c1
                then ((b0 mod 32) * 64 + of_char c1 mod 64, 2)
                else (RuneError, 1)
            | _ \<Rightarrow> (RuneError, 1))
         else if b0 < 0xF0 then
           (case s1 of
              c1 # c2 # s3 \<Rightarrow>
                if second_byte b0 c1 \<and> continuation c2
                then ((b0 mod 16) * 4096 + (of_char c1 mod 64) * 64 + of_char c2 mod 64, 3)
                else (RuneError, 1)
            | _ \<Rightarrow> (RuneError, 1))
         else
           (case s1 of
              c1 # c2 # c3 # s4 \<Rightarrow>
                if second_byte b0 c1 \<and> continuation c2 \<and> continuation c3
                then ((b0 mod 8) * 262144 + (of_char c1 mod 64) * 4096 +
                      (of_char c2 mod 64) * 64 + of_char c3 mod 64, 4)
                else (RuneError, 1)
            | _ \<Rightarrow> (RuneError, 1))))"

text \<open>
  The runes that \<^verbatim>\<open>for _, char := range input\<close> yields, in order: after a rune the loop
  goes on behind its bytes, and behind one byte when the bytes were no valid encoding.
\<close>

fun range_runes :: "string \<Rightarrow> rune list" where
  "range_runes [] = []"
| "range_runes (c # s) =
    (case DecodeRune (c # s) of (r, width) \<Rightarrow> r # range_runes (drop (width - 1) s))"

text \<open>
  The bytes that \<^verbatim>\<open>strings.Builder.WriteRune\<close> appends (\<^verbatim>\<open>utf8.AppendRune\<close>): the UTF-8
  encoding of the rune, and that of U+FFFD for a surrogate and for a rune above U+10FFFF.
\<close>

definition AppendRune :: "rune \<Rightarrow> string" where
  "AppendRune r =
    (if r \<le> 0x7F then [char_of r]
     else if r \<le> 0x7FF then [char_of (0xC0 + r div 64), char_of (0x80 + r mod 64)]
     else if 0x10FFFF < r \<or> (0xD800 \<le> r \<and> r \<le> 0xDFFF) then [CHR 0xEF, CHR 0xBF, CHR 0xBD]
     else if r \<le> 0xFFFF then
       [char_of (0xE0 + r div 4096), char_of (0x80 + (r div 64) mod 64), char_of (0x80 + r mod 64)]
     else
       [char_of (0xF0 + r div 262144), char_of (0x80 + (r div 4096) mod 64),
        char_of (0x80 + (r div 64) mod 64), char_of (0x80 + r mod 64)])"



section \<open>Command parser\<close>

record ParsedCommand =
  Command :: string
  Args :: "string list"
  Background :: bool
  Pipes :: "string list list"

text \<open>The command of one line with no pipe, as \<^verbatim>\<open>Parse\<close> builds it.\<close>

definition parsed_command :: "string \<Rightarrow> string list \<Rightarrow> bool \<Rightarrow> ParsedCommand" where
  "parsed_command name args background =
    \<lparr>Command = name, Args = args, Background = background, Pipes = [args]\<rparr>"

text \<open>
  The loop of \<^verbatim>\<open>tokenize\<close>, one step for each rune that \<^verbatim>\<open>range input\<close> yields.
  The loop variables are \<open>tokens\<close>, \<open>current\<close>, \<open>inQuotes\<close> and \<open>quoteChar\<close>; the result
  is the pair of \<open>tokens\<close> and \<open>current\<close> when the runes are used up. The runes 0x22 and
  0x27 are the double and the single quote, 0x20 and 0x09 the space and the tab.
\<close>

fun tokenize_loop :: "string list \<Rightarrow> string \<Rightarrow> bool \<Rightarrow> rune \<Rightarrow> rune list \<Rightarrow> string list \<times> string" where
  "tokenize_loop tokens current inQuotes quoteChar [] = (tokens, current)"
| "tokenize_loop tokens current inQuotes quoteChar (char # input) =
    (if char = 0x22 \<or> char = 0x27 then
       (if \<not> inQuotes then tokenize_loop tokens current True char input
        else if char = quoteChar then tokenize_loop tokens current False 0 input
        else tokenize_loop tokens (current @ AppendRune char) inQuotes quoteChar input)
     else if char = 0x20 \<or> char = 0x09 then
       (if inQuotes then tokenize_loop tokens (current @ AppendRune char) inQuotes quoteChar input
        else if length current > 0 then tokenize_loop (tokens @ [current]) [] inQuotes quoteChar input
        else tokenize_loop tokens current inQuotes quoteChar input)
     else tokenize_loop tokens (current @ AppendRune char) inQuotes quoteChar input)"

definition tokenize :: "string \<Rightarrow> string list" where
  "tokenize input =
    (case tokenize_loop [] [] False 0 (range_runes input) of
       (tokens, current) \<Rightarrow> if length current > 0 then tokens @ [current] else tokens)"

text \<open>\<^verbatim>\<open>Parse\<close> returns a pointer; \<open>None\<close> is the nil pointer.\<close>

definition Parse :: "string \<Rightarrow> ParsedCommand option" where
  "Parse input0 =
    (let input1 = TrimSpace input0 in
     if input1 = [] then None
     else
       (let background = HasSuffix input1 ''&'';
            input = (if background then TrimSpace (TrimSuffix input1 ''&'') else input1);
            args = tokenize input
        in case args of
             [] \<Rightarrow> None
           | a # as \<Rightarrow>
              Some (parsed_command a args background)))"

definition IsBuiltinCommand :: "string \<Rightarrow> bool" where
  "IsBuiltinCommand command \<longleftrightarrow>
    command \<in> set [''cd'', ''pwd'', ''exit'', ''echo'', ''clear'', ''ls'', ''cat'', ''mkdir'',
                   ''rmdir'', ''rm'', ''touch'', ''kill'', ''jobs'', ''fg'', ''bg'', ''help'']"

section \<open>Errors, results and the operating system\<close>

type_synonym oserr = string
type_synonym proc = nat
type_synonym addr = nat
type_synonym time = int

text \<open>
  One constructor for each \<^verbatim>\<open>fmt.Errorf\<close> of the source, holding the values that the
  format string prints. The string of \<open>MissingJobID\<close> to \<open>NoJobs\<close> is the name of the
  built-in, \<open>fg\<close> or \<open>bg\<close>, that starts the message. \<open>BuiltinFailed\<close> is an error of a
  built-in that is not modelled.
\<close>

datatype error =
    JobNotFound int
  | JobAlreadyCompleted int
  | JobNotStopped int
  | ResumeFailed oserr
  | KillFailed oserr
  | DangerousPath string
  | InvalidCharacters string
  | CommandNameTooLong
  | ArgumentTooLong nat
  | TooManyArguments
  | MissingJobID string
  | TooManyJobArguments string
  | EmptyJobID string
  | InvalidJobID string string
  | NonPositiveJobID string int
  | NoJobs string
  | CommandNotFound string
  | CommandNotSupported string
  | UnknownBuiltin string
  | BuiltinFailed string

text \<open>
  What a call does: it returns nil (\<open>Ok\<close>), it returns an error, or it never returns
  (\<open>Blocked\<close>: \<^verbatim>\<open>Cmd.Wait\<close> on a process that does not exit).
\<close>

datatype result = Ok | Err error | Blocked

section \<open>Command validation\<close>

text \<open>The loop over \<^verbatim>\<open>parsed.Args\<close>, from index \<open>i\<close> on.\<close>

fun validate_args :: "nat \<Rightarrow> string list \<Rightarrow> error option" where
  "validate_args i [] = None"
| "validate_args i (arg # args) =
    (if length arg > 1024 then Some (ArgumentTooLong i) else validate_args (Suc i) args)"

text \<open>The argument is a pointer: \<open>None\<close> is nil. The result \<open>None\<close> is the nil error.\<close>

definition ValidateCommand :: "ParsedCommand option \<Rightarrow> error option" where
  "ValidateCommand parsed =
    (case parsed of
       None \<Rightarrow> None
     | Some p \<Rightarrow>
        if Command p = [] then None
        else if Contains (Command p) ''..'' then Some (DangerousPath (Command p))
        else if ContainsAny (Command p) ''|;&<>(){}[]'' then Some (InvalidCharacters (Command p))
        else if length (Command p) > 256 then Some CommandNameTooLong
        else
          (case validate_args 0 (Args p) of
             Some e \<Rightarrow> Some e
           | None \<Rightarrow> if length (Args p) > 100 then Some TooManyArguments else None))"

section \<open>Jobs\<close>

datatype JobStatus = JobStatusRunning | JobStatusStopped | JobStatusDone

text \<open>
  \<^verbatim>\<open>exec.Cmd\<close>, of which the job manager reads one field, the pointer \<^verbatim>\<open>Process\<close>;
  \<open>None\<close> is nil, \<open>Some p\<close> the process \<open>p\<close>.
\<close>

record ExecCmd =
  Process :: "proc option"

record Job =
  ID :: int
  PID :: int
  Command :: string
  Args :: "string list"
  Status :: JobStatus
  Cmd :: "ExecCmd option"
  StartTime :: time
  EndTime :: "time option"
  Background :: bool

text \<open>
  The process that \<^verbatim>\<open>job.Cmd != nil && job.Cmd.Process != nil\<close> guards, when it holds.
\<close>

definition process_of :: "Job \<Rightarrow> proc option" where
  "process_of job = (case Cmd job of None \<Rightarrow> None | Some c \<Rightarrow> Process c)"

text \<open>
  What a call asks of the operating system and the runtime, and gets: the error of
  \<^verbatim>\<open>Process.Signal(SIGCONT)\<close> and of \<^verbatim>\<open>Process.Kill()\<close> (\<open>None\<close> is nil), what
  \<^verbatim>\<open>Cmd.Wait()\<close> does, \<^verbatim>\<open>time.Now()\<close>, whether \<^verbatim>\<open>exec.LookPath\<close> finds a name, and
  the order in which \<^verbatim>\<open>range\<close> goes through the keys of the job table.
\<close>

datatype wait_result = Exited "oserr option" | NeverExits

record os =
  Signal :: "proc \<Rightarrow> oserr option"
  Kill :: "proc \<Rightarrow> oserr option"
  Wait :: "proc \<Rightarrow> wait_result"
  Now :: time
  LookPath :: "string \<Rightarrow> bool"
  RangeOrder :: "int list"

text \<open>
  What a call does to the outside, in order: the lines it prints (one constructor for
  each \<^verbatim>\<open>Printf\<close>, with the values printed) and the calls on a process.
\<close>

datatype event =
    OutBringToForeground int string
  | OutExitedWithError int oserr
  | OutResuming int string
  | OutTerminating int string
  | SentSIGCONT proc
  | SentKill proc
  | Waited proc

section \<open>Job manager\<close>

text \<open>
  The table maps an id to a pointer to a \<open>Job\<close>. The pointers are addresses of a heap
  of jobs, so that a write through a pointer is seen through every copy of it, also after
  the id has left the table. An address always holds a job: no nil pointer is in the table.
\<close>

record JobManager =
  jobs :: "int \<rightharpoonup> addr"
  jobCounter :: int

record world =
  jm :: JobManager
  heap :: "addr \<Rightarrow> Job"
  allocated :: nat
  trace :: "event list"

definition emit :: "event \<Rightarrow> world \<Rightarrow> world" where
  "emit e w = w\<lparr>trace := trace w @ [e]\<rparr>"

definition store :: "addr \<Rightarrow> Job \<Rightarrow> world \<Rightarrow> world" where
  "store a job w = w\<lparr>heap := (heap w)(a := job)\<rparr>"

definition delete_job :: "int \<Rightarrow> world \<Rightarrow> world" where
  "delete_job jobID w = w\<lparr>jm := (jm w)\<lparr>jobs := (jobs (jm w))(jobID := None)\<rparr>\<rparr>"

definition NewJobManager :: JobManager where
  "NewJobManager = \<lparr>jobs = Map.empty, jobCounter = 0\<rparr>"

definition GetJob :: "int \<Rightarrow> world \<Rightarrow> error + addr" where
  "GetJob jobID w =
    (case jobs (jm w) jobID of None \<Rightarrow> Inl (JobNotFound jobID) | Some a \<Rightarrow> Inr a)"

text \<open>
  \<^verbatim>\<open>range jm.jobs\<close> yields the entries of the keys in the order \<open>RangeOrder\<close>; a key
  with no entry (any more) yields nothing.
\<close>

definition GetAllJobs :: "os \<Rightarrow> world \<Rightarrow> addr list" where
  "GetAllJobs os w = List.map_filter (jobs (jm w)) (RangeOrder os)"

text \<open>Lines 83 to 98 of \<^verbatim>\<open>BringToForeground\<close>: the wait in the foreground and what follows.\<close>

definition foreground_wait :: "os \<Rightarrow> int \<Rightarrow> addr \<Rightarrow> proc \<Rightarrow> world \<Rightarrow> result \<times> world" where
  "foreground_wait os jobID a p w =
    (let w1 = store a ((heap w a)\<lparr>Status := JobStatusRunning, Background := False\<rparr>) w;
         w2 = emit (Waited p) w1
     in case Wait os p of
          NeverExits \<Rightarrow> (Blocked, w2)
        | Exited r \<Rightarrow>
           (let w3 = (case r of None \<Rightarrow> w2 | Some e \<Rightarrow> emit (OutExitedWithError (ID (heap w2 a)) e) w2);
                w4 = store a ((heap w3 a)\<lparr>Status := JobStatusDone, EndTime := Some (Now os)\<rparr>) w3
            in (Ok, delete_job jobID w4)))"

definition BringToForeground :: "os \<Rightarrow> int \<Rightarrow> world \<Rightarrow> result \<times> world" where
  "BringToForeground os jobID w =
    (case GetJob jobID w of
       Inl err \<Rightarrow> (Err err, w)
     | Inr a \<Rightarrow>
        if Status (heap w a) = JobStatusDone then (Err (JobAlreadyCompleted jobID), w)
        else
          (let w1 = emit (OutBringToForeground (ID (heap w a)) (Command (heap w a))) w
           in case process_of (heap w1 a) of
                None \<Rightarrow> (Ok, delete_job jobID w1)
              | Some p \<Rightarrow>
                 if Status (heap w1 a) = JobStatusStopped then
                   (case Signal os p of
                      Some e \<Rightarrow> (Err (ResumeFailed e), emit (SentSIGCONT p) w1)
                    | None \<Rightarrow> foreground_wait os jobID a p (emit (SentSIGCONT p) w1))
                 else foreground_wait os jobID a p w1))"

definition ResumeInBackground :: "os \<Rightarrow> int \<Rightarrow> world \<Rightarrow> result \<times> world" where
  "ResumeInBackground os jobID w =
    (case GetJob jobID w of
       Inl err \<Rightarrow> (Err err, w)
     | Inr a \<Rightarrow>
        if Status (heap w a) = JobStatusDone then (Err (JobAlreadyCompleted jobID), w)
        else if Status (heap w a) \<noteq> JobStatusStopped then (Err (JobNotStopped jobID), w)
        else
          (let w1 = emit (OutResuming (ID (heap w a)) (Command (heap w a))) w
           in case process_of (heap w1 a) of
                None \<Rightarrow> (Ok, w1)
              | Some p \<Rightarrow>
                 (case Signal os p of
                    Some e \<Rightarrow> (Err (ResumeFailed e), emit (SentSIGCONT p) w1)
                  | None \<Rightarrow>
                     (Ok, store a ((heap w1 a)\<lparr>Status := JobStatusRunning, Background := True\<rparr>)
                            (emit (SentSIGCONT p) w1)))))"

definition KillJob :: "os \<Rightarrow> int \<Rightarrow> world \<Rightarrow> result \<times> world" where
  "KillJob os jobID w =
    (case GetJob jobID w of
       Inl err \<Rightarrow> (Err err, w)
     | Inr a \<Rightarrow>
        if Status (heap w a) = JobStatusDone then (Err (JobAlreadyCompleted jobID), w)
        else
          (let w1 = emit (OutTerminating (ID (heap w a)) (Command (heap w a))) w
           in case process_of (heap w1 a) of
                None \<Rightarrow> (Ok, w1)
              | Some p \<Rightarrow>
                 (case Kill os p of
                    Some e \<Rightarrow> (Err (KillFailed e), emit (SentKill p) w1)
                  | None \<Rightarrow>
                     (Ok, store a ((heap w1 a)\<lparr>Status := JobStatusDone, EndTime := Some (Now os)\<rparr>)
                            (emit (SentKill p) w1)))))"

text \<open>
  One turn of the loop of \<^verbatim>\<open>CleanupCompletedJobs\<close>, at the key \<open>id\<close>: an entry that is
  still in the table is deleted when its job is done.
\<close>

definition cleanup_step :: "int \<Rightarrow> world \<Rightarrow> world" where
  "cleanup_step k w =
    (case jobs (jm w) k of
       None \<Rightarrow> w
     | Some a \<Rightarrow> if Status (heap w a) = JobStatusDone then delete_job k w else w)"

definition CleanupCompletedJobs :: "os \<Rightarrow> world \<Rightarrow> world" where
  "CleanupCompletedJobs os w = fold cleanup_step (RangeOrder os) w"

text \<open>
  \<open>RangeOrder\<close> is an order in which \<^verbatim>\<open>range\<close> can go through the table: every key of
  the table, once.
\<close>

definition ranges_over :: "os \<Rightarrow> world \<Rightarrow> bool" where
  "ranges_over os w \<longleftrightarrow> distinct (RangeOrder os) \<and> set (RangeOrder os) = dom (jobs (jm w))"

section \<open>The built-ins fg and bg\<close>

definition handleFG :: "os \<Rightarrow> string list \<Rightarrow> world \<Rightarrow> result \<times> world" where
  "handleFG os args w =
    (if length args < 2 then (Err (MissingJobID ''fg''), w)
     else if length args > 2 then (Err (TooManyJobArguments ''fg''), w)
     else
       (let jobIDStr = args ! 1 in
        if jobIDStr = [] then (Err (EmptyJobID ''fg''), w)
        else
          (case Atoi jobIDStr of
             None \<Rightarrow> (Err (InvalidJobID ''fg'' jobIDStr), w)
           | Some jobID \<Rightarrow>
              if jobID \<le> 0 then (Err (NonPositiveJobID ''fg'' jobID), w)
              else if length (GetAllJobs os w) = 0 then (Err (NoJobs ''fg''), w)
              else BringToForeground os jobID w)))"

definition handleBG :: "os \<Rightarrow> string list \<Rightarrow> world \<Rightarrow> result \<times> world" where
  "handleBG os args w =
    (if length args < 2 then (Err (MissingJobID ''bg''), w)
     else if length args > 2 then (Err (TooManyJobArguments ''bg''), w)
     else
       (let jobIDStr = args ! 1 in
        if jobIDStr = [] then (Err (EmptyJobID ''bg''), w)
        else
          (case Atoi jobIDStr of
             None \<Rightarrow> (Err (InvalidJobID ''bg'' jobIDStr), w)
           | Some jobID \<Rightarrow>
              if jobID \<le> 0 then (Err (NonPositiveJobID ''bg'' jobID), w)
              else if length (GetAllJobs os w) = 0 then (Err (NoJobs ''bg''), w)
              else ResumeInBackground os jobID w)))"

text \<open>
  The switch of \<^verbatim>\<open>HandleCommand\<close>. The built-ins \<open>fg\<close> and \<open>bg\<close> are the functions
  above; the others (files, directories, display, the listing of the jobs, \<open>kill\<close> by
  process id, \<open>exit\<close>) are the parameter \<open>builtin\<close>, which is given the parsed command.
\<close>

definition HandleCommand ::
  "os \<Rightarrow> (ParsedCommand \<Rightarrow> world \<Rightarrow> result \<times> world) \<Rightarrow> ParsedCommand option \<Rightarrow> world \<Rightarrow> result \<times> world" where
  "HandleCommand os builtin parsed w =
    (case parsed of
       None \<Rightarrow> (Ok, w)
     | Some p \<Rightarrow>
        if ParsedCommand.Command p = [] then (Ok, w)
        else if ParsedCommand.Command p \<in> set [''cd'', ''pwd'', ''exit'', ''echo'', ''clear'', ''ls'',
                  ''cat'', ''mkdir'', ''rmdir'', ''rm'', ''touch'', ''kill'', ''jobs''] then builtin p w
        else if ParsedCommand.Command p = ''fg'' then handleFG os (ParsedCommand.Args p) w
        else if ParsedCommand.Command p = ''bg'' then handleBG os (ParsedCommand.Args p) w
        else if ParsedCommand.Command p = ''help'' then builtin p w
        else (Err (UnknownBuiltin (ParsedCommand.Command p)), w))"

section \<open>Shell\<close>

text \<open>
  \<^verbatim>\<open>processInput\<close> parses the line and dispatches the parsed command. \<open>dispatch\<close> is
  what follows the call of \<^verbatim>\<open>Parse\<close>: the validation, the call of the command handler
  of the shell for a built-in name, and the two errors for any other name. The command
  handler is the field \<^verbatim>\<open>commandHandler\<close> of the shell, here the parameter \<open>handler\<close>.
\<close>

definition dispatch ::
  "os \<Rightarrow> (ParsedCommand option \<Rightarrow> world \<Rightarrow> result \<times> world) \<Rightarrow> ParsedCommand option \<Rightarrow> world \<Rightarrow>
     result \<times> world" where
  "dispatch os handler parsed w =
    (case parsed of
       None \<Rightarrow> (Ok, w)
     | Some p \<Rightarrow>
        (case ValidateCommand (Some p) of
           Some err \<Rightarrow> (Err err, w)
         | None \<Rightarrow>
            if IsBuiltinCommand (ParsedCommand.Command p)
            then handler (Some p) w
            else if \<not> LookPath os (ParsedCommand.Command p)
            then (Err (CommandNotFound (ParsedCommand.Command p)), w)
            else (Err (CommandNotSupported (ParsedCommand.Command p)), w)))"

definition processInput ::
  "os \<Rightarrow> (ParsedCommand \<Rightarrow> world \<Rightarrow> result \<times> world) \<Rightarrow> string \<Rightarrow> world \<Rightarrow> result \<times> world" where
  "processInput os builtin input w = dispatch os (HandleCommand os builtin) (Parse input) w"

section \<open>Registration of a job\<close>

text \<open>
  Modelled from the spec: the operation \<open>register(processHandle, commandText, background)\<close>,
  which the source does not have (it declares the counter \<^verbatim>\<open>jobCounter\<close> and has no
  function that adds a job). After the spec it allocates the next integer id, inserts a
  new job with status Running and the start time now, and returns the id; the process
  id mirrors the handle. The job is a new object, at the next free address of the heap.
  The ids are the integers of the spec: the counter is not bounded.
\<close>

definition register :: "os \<Rightarrow> proc \<Rightarrow> string \<Rightarrow> bool \<Rightarrow> world \<Rightarrow> int \<times> world" where
  "register os processHandle commandText background w =
    (let jobId = jobCounter (jm w) + 1;
         a = allocated w;
         job = \<lparr>ID = jobId, PID = int processHandle, Command = commandText, Args = [],
                Status = JobStatusRunning, Cmd = Some \<lparr>Process = Some processHandle\<rparr>,
                StartTime = Now os, EndTime = None, Background = background\<rparr>
     in (jobId,
         w\<lparr>jm := \<lparr>jobs = (jobs (jm w))(jobId \<mapsto> a), jobCounter = jobId\<rparr>,
           heap := (heap w)(a := job),
           allocated := Suc a\<rparr>))"

text \<open>
  A session of the table: the calls made on it, one after the other, each with what
  the operating system answers during the call. \<open>run\<close> gives the ids that the
  registrations returned, in order, and the last state; a call that never returns ends
  the session.
\<close>

datatype call =
    CallRegister proc string bool
  | CallForeground int
  | CallBackground int
  | CallKill int
  | CallCleanup

fun run :: "(os \<times> call) list \<Rightarrow> world \<Rightarrow> int list \<times> world" where
  "run [] w = ([], w)"
| "run ((os, CallRegister h c b) # cs) w =
    (case register os h c b w of
       (jobId, w') \<Rightarrow> (case run cs w' of (ids, w'') \<Rightarrow> (jobId # ids, w'')))"
| "run ((os, CallForeground jobID) # cs) w =
    (case BringToForeground os jobID w of
       (Blocked, w') \<Rightarrow> ([], w')
     | (_, w') \<Rightarrow> run cs w')"
| "run ((os, CallBackground jobID) # cs) w = run cs (snd (ResumeInBackground os jobID w))"
| "run ((os, CallKill jobID) # cs) w = run cs (snd (KillJob os jobID w))"
| "run ((os, CallCleanup) # cs) w = run cs (CleanupCompletedJobs os w)"

text \<open>
  What holds of the table in every session: the counter is not negative, and an entry
  of the table has a positive id that is at most the counter, and points to an allocated
  job whose field \<open>ID\<close> is that id.
\<close>

definition table_invariant :: "world \<Rightarrow> bool" where
  "table_invariant w \<longleftrightarrow>
    0 \<le> jobCounter (jm w) \<and>
    (\<forall>k a. jobs (jm w) k = Some a \<longrightarrow>
       0 < k \<and> k \<le> jobCounter (jm w) \<and> a < allocated w \<and> ID (heap w a) = k)"

text \<open>
  What the operations other than the registration leave as it is: the counter, the
  allocation, the entries that are still in the table, and the field \<open>ID\<close> of every job.
\<close>

definition no_new_job :: "world \<Rightarrow> world \<Rightarrow> bool" where
  "no_new_job w w' \<longleftrightarrow>
    jobCounter (jm w') = jobCounter (jm w) \<and>
    allocated w' = allocated w \<and>
    (\<forall>k a. jobs (jm w') k = Some a \<longrightarrow> jobs (jm w) k = Some a) \<and>
    (\<forall>a. ID (heap w' a) = ID (heap w a))"

section \<open>Tokenization as the spec words it\<close>






section \<open>Examples\<close>

definition example_job :: "JobStatus \<Rightarrow> ExecCmd option \<Rightarrow> bool \<Rightarrow> Job" where
  "example_job st c bg =
    \<lparr>ID = 1, PID = 4242, Command = ''sleep 5'', Args = [''sleep'', ''5''], Status = st, Cmd = c,
     StartTime = 100, EndTime = None, Background = bg\<rparr>"

definition example_world :: "JobStatus \<Rightarrow> ExecCmd option \<Rightarrow> bool \<Rightarrow> world" where
  "example_world st c bg =
    \<lparr>jm = \<lparr>jobs = [1 \<mapsto> 0], jobCounter = 1\<rparr>, heap = (\<lambda>a. example_job st c bg),
     allocated = 1, trace = []\<rparr>"

definition example_os :: "oserr option \<Rightarrow> wait_result \<Rightarrow> os" where
  "example_os err wr =
    \<lparr>Signal = (\<lambda>p. err), Kill = (\<lambda>p. err), Wait = (\<lambda>p. wr), Now = 200,
     LookPath = (\<lambda>name. name = ''vim''), RangeOrder = [1]\<rparr>"

definition started :: "ExecCmd option" where
  "started = Some \<lparr>Process = Some 4242\<rparr>"

definition empty_world :: world where
  "empty_world =
    \<lparr>jm = NewJobManager, heap = (\<lambda>a. example_job JobStatusDone None False), allocated = 0, trace = []\<rparr>"

text \<open>
  A table of two jobs, as after two registrations and the kill of the second: job 1 is
  running and job 2 is done.
\<close>

definition two_jobs :: world where
  "two_jobs =
    \<lparr>jm = \<lparr>jobs = [1 \<mapsto> 0, 2 \<mapsto> 1], jobCounter = 2\<rparr>,
     heap = (\<lambda>a. if a = 1
                 then \<lparr>ID = 2, PID = 4343, Command = ''sleep 9'', Args = [''sleep'', ''9''],
                        Status = JobStatusDone, Cmd = Some \<lparr>Process = Some 4343\<rparr>,
                        StartTime = 110, EndTime = Some 150, Background = True\<rparr>
                 else example_job JobStatusRunning started True),
     allocated = 2, trace = []\<rparr>"

definition range_os :: "int list \<Rightarrow> os" where
  "range_os ks = (example_os None NeverExits)\<lparr>RangeOrder := ks\<rparr>"

text \<open>A stand-in for the built-ins that are not modelled: it does nothing and succeeds.\<close>

definition example_builtin :: "ParsedCommand \<Rightarrow> world \<Rightarrow> result \<times> world" where
  "example_builtin p w = (Ok, w)"

definition example_session :: "(os \<times> call) list" where
  "example_session =
    [(range_os [], CallRegister 4242 ''sleep 5'' True),
     (range_os [1], CallRegister 4343 ''sleep 9'' True),
     (range_os [1, 2], CallKill 2),
     (range_os [2, 1], CallCleanup),
     (range_os [1], CallRegister 4444 ''top'' False)]"

section \<open>Errors of job control\<close>

lemma foreground_wait_no_error: "fst (foreground_wait os jobID a p w) \<noteq> Err e"
  by (simp add: foreground_wait_def Let_def split: wait_result.split)

lemma BringToForeground_error:
  assumes "BringToForeground os jobID w = (Err e, w')"
  shows "jm w' = jm w \<and> heap w' = heap w \<and> allocated w' = allocated w"
proof (cases "jobs (jm w) jobID")
  case None
  with assms show ?thesis by (simp add: BringToForeground_def GetJob_def)
next
  case (Some a)
  show ?thesis
  proof (cases "Status (heap w a) = JobStatusDone")
    case True
    with Some assms show ?thesis by (simp add: BringToForeground_def GetJob_def)
  next
    case False
    show ?thesis
    proof (cases "process_of (heap w a)")
      case None
      with Some False assms show ?thesis
        by (simp add: BringToForeground_def GetJob_def Let_def emit_def)
    next
      case (Some p)
      with \<open>jobs (jm w) jobID = Some a\<close> False assms foreground_wait_no_error show ?thesis
        by (auto simp: BringToForeground_def GetJob_def Let_def emit_def
            split: if_splits option.splits dest: arg_cong[where f=fst])
    qed
  qed
qed

lemma ResumeInBackground_error:
  assumes "ResumeInBackground os jobID w = (Err e, w')"
  shows "jm w' = jm w \<and> heap w' = heap w \<and> allocated w' = allocated w"
  using assms
  by (auto simp: ResumeInBackground_def GetJob_def Let_def emit_def split: option.splits if_splits)

lemma KillJob_error:
  assumes "KillJob os jobID w = (Err e, w')"
  shows "jm w' = jm w \<and> heap w' = heap w \<and> allocated w' = allocated w"
  using assms
  by (auto simp: KillJob_def GetJob_def Let_def emit_def split: option.splits if_splits)

text \<open>
  C3. Whenever \<open>BringToForeground\<close>, \<open>ResumeInBackground\<close> or \<open>KillJob\<close> returns an
  error (job not found, already completed, not stopped, or a signal that could not be
  delivered), the table is as it was: the same ids with the same jobs and the same
  counter, and no field of any job (status, background flag, end time) has changed.
\<close>

theorem job_control_error_leaves_table:
  "(fst (BringToForeground os jobID w) = Err e \<longrightarrow>
      jm (snd (BringToForeground os jobID w)) = jm w \<and>
      heap (snd (BringToForeground os jobID w)) = heap w) \<and>
   (fst (ResumeInBackground os jobID w) = Err e \<longrightarrow>
      jm (snd (ResumeInBackground os jobID w)) = jm w \<and>
      heap (snd (ResumeInBackground os jobID w)) = heap w) \<and>
   (fst (KillJob os jobID w) = Err e \<longrightarrow>
      jm (snd (KillJob os jobID w)) = jm w \<and>
      heap (snd (KillJob os jobID w)) = heap w)"
proof (intro conjI impI)
  assume "fst (BringToForeground os jobID w) = Err e"
  then have "BringToForeground os jobID w = (Err e, snd (BringToForeground os jobID w))"
    by (simp add: prod_eq_iff)
  from BringToForeground_error [OF this]
  show "jm (snd (BringToForeground os jobID w)) = jm w"
    and "heap (snd (BringToForeground os jobID w)) = heap w" by simp_all
next
  assume "fst (ResumeInBackground os jobID w) = Err e"
  then have "ResumeInBackground os jobID w = (Err e, snd (ResumeInBackground os jobID w))"
    by (simp add: prod_eq_iff)
  from ResumeInBackground_error [OF this]
  show "jm (snd (ResumeInBackground os jobID w)) = jm w"
    and "heap (snd (ResumeInBackground os jobID w)) = heap w" by simp_all
next
  assume "fst (KillJob os jobID w) = Err e"
  then have "KillJob os jobID w = (Err e, snd (KillJob os jobID w))"
    by (simp add: prod_eq_iff)
  from KillJob_error [OF this]
  show "jm (snd (KillJob os jobID w)) = jm w"
    and "heap (snd (KillJob os jobID w)) = heap w" by simp_all
qed

text \<open>
  The three errors at work on the table of the example, whose job 1 is stopped and has a
  started process: the continue signal of \<open>fg\<close> fails, \<open>bg\<close> is asked for a job that is
  not there, and the kill fails.
\<close>

theorem job_control_error_leaves_table_witness:
  "fst (BringToForeground (example_os (Some ''operation not permitted'') NeverExits) 1
          (example_world JobStatusStopped started True)) = Err (ResumeFailed ''operation not permitted'') \<and>
   jm (snd (BringToForeground (example_os (Some ''operation not permitted'') NeverExits) 1
          (example_world JobStatusStopped started True))) = jm (example_world JobStatusStopped started True) \<and>
   heap (snd (BringToForeground (example_os (Some ''operation not permitted'') NeverExits) 1
          (example_world JobStatusStopped started True))) = heap (example_world JobStatusStopped started True) \<and>
   fst (ResumeInBackground (example_os None NeverExits) 2
          (example_world JobStatusStopped started True)) = Err (JobNotFound 2) \<and>
   jm (snd (ResumeInBackground (example_os None NeverExits) 2
          (example_world JobStatusStopped started True))) = jm (example_world JobStatusStopped started True) \<and>
   heap (snd (ResumeInBackground (example_os None NeverExits) 2
          (example_world JobStatusStopped started True))) = heap (example_world JobStatusStopped started True) \<and>
   fst (KillJob (example_os (Some ''operation not permitted'') NeverExits) 1
          (example_world JobStatusStopped started True)) = Err (KillFailed ''operation not permitted'') \<and>
   jm (snd (KillJob (example_os (Some ''operation not permitted'') NeverExits) 1
          (example_world JobStatusStopped started True))) = jm (example_world JobStatusStopped started True) \<and>
   heap (snd (KillJob (example_os (Some ''operation not permitted'') NeverExits) 1
          (example_world JobStatusStopped started True))) = heap (example_world JobStatusStopped started True)"
proof -
  let ?w = "example_world JobStatusStopped started True"
  let ?os = "example_os (Some ''operation not permitted'') NeverExits"
  have fg: "fst (BringToForeground ?os 1 ?w) = Err (ResumeFailed ''operation not permitted'')"
    by (simp add: BringToForeground_def GetJob_def example_world_def example_os_def
        example_job_def started_def process_of_def emit_def Let_def)
  have bg: "fst (ResumeInBackground (example_os None NeverExits) 2 ?w) = Err (JobNotFound 2)"
    by (simp add: ResumeInBackground_def GetJob_def example_world_def)
  have kill: "fst (KillJob ?os 1 ?w) = Err (KillFailed ''operation not permitted'')"
    by (simp add: KillJob_def GetJob_def example_world_def example_os_def
        example_job_def started_def process_of_def emit_def Let_def)
  from fg bg kill
    job_control_error_leaves_table [of ?os 1 ?w "ResumeFailed ''operation not permitted''"]
    job_control_error_leaves_table [of "example_os None NeverExits" 2 ?w "JobNotFound 2"]
    job_control_error_leaves_table [of ?os 1 ?w "KillFailed ''operation not permitted''"]
  show ?thesis by blast
qed

section \<open>The operations on a tracked job, case by case\<close>

lemma GetAllJobs_set:
  "set (GetAllJobs os w) = {a. \<exists>k \<in> set (RangeOrder os). jobs (jm w) k = Some a}"
  by (force simp: GetAllJobs_def map_filter_def image_iff)

lemma BringToForeground_blocked:
  assumes "jobs (jm w) jobID = Some a"
    and "Status (heap w a) \<noteq> JobStatusDone"
    and "process_of (heap w a) = Some p"
    and "Status (heap w a) = JobStatusStopped \<longrightarrow> Signal os p = None"
    and "Wait os p = NeverExits"
  shows "BringToForeground os jobID w =
    (Blocked,
     w\<lparr>heap := (heap w)(a := (heap w a)\<lparr>Status := JobStatusRunning, Background := False\<rparr>),
       trace := trace w @ [OutBringToForeground (ID (heap w a)) (Command (heap w a))] @
         (if Status (heap w a) = JobStatusStopped then [SentSIGCONT p] else []) @ [Waited p]\<rparr>)"
  using assms
  by (simp add: BringToForeground_def GetJob_def Let_def emit_def foreground_wait_def store_def)

lemma BringToForeground_exited:
  assumes "jobs (jm w) jobID = Some a"
    and "Status (heap w a) \<noteq> JobStatusDone"
    and "process_of (heap w a) = Some p"
    and "Status (heap w a) = JobStatusStopped \<longrightarrow> Signal os p = None"
    and "Wait os p = Exited r"
  shows "BringToForeground os jobID w =
    (Ok,
     w\<lparr>trace := trace w @ [OutBringToForeground (ID (heap w a)) (Command (heap w a))] @
         (if Status (heap w a) = JobStatusStopped then [SentSIGCONT p] else []) @ [Waited p] @
         (case r of None \<Rightarrow> [] | Some e \<Rightarrow> [OutExitedWithError (ID (heap w a)) e]),
       heap := (heap w)(a := (heap w a)\<lparr>Background := False, Status := JobStatusDone,
                                          EndTime := Some (Now os)\<rparr>),
       jm := (jm w)\<lparr>jobs := (jobs (jm w))(jobID := None)\<rparr>\<rparr>)"
  using assms
  by (cases r)
     (simp_all add: BringToForeground_def GetJob_def Let_def emit_def foreground_wait_def store_def
        delete_job_def)

lemma KillJob_delivered:
  assumes "jobs (jm w) jobID = Some a"
    and "Status (heap w a) \<noteq> JobStatusDone"
    and "process_of (heap w a) = Some p"
    and "Kill os p = None"
  shows "KillJob os jobID w =
    (Ok,
     w\<lparr>trace := trace w @ [OutTerminating (ID (heap w a)) (Command (heap w a)), SentKill p],
       heap := (heap w)(a := (heap w a)\<lparr>Status := JobStatusDone, EndTime := Some (Now os)\<rparr>)\<rparr>)"
  using assms by (simp add: KillJob_def GetJob_def Let_def emit_def store_def)

lemma KillJob_done:
  assumes "jobs (jm w) jobID = Some a" and "Status (heap w a) = JobStatusDone"
  shows "KillJob os jobID w = (Err (JobAlreadyCompleted jobID), w)"
  using assms by (simp add: KillJob_def GetJob_def)

lemma ResumeInBackground_delivered:
  assumes "jobs (jm w) jobID = Some a"
    and "Status (heap w a) = JobStatusStopped"
    and "process_of (heap w a) = Some p"
    and "Signal os p = None"
  shows "ResumeInBackground os jobID w =
    (Ok,
     w\<lparr>trace := trace w @ [OutResuming (ID (heap w a)) (Command (heap w a)), SentSIGCONT p],
       heap := (heap w)(a := (heap w a)\<lparr>Status := JobStatusRunning, Background := True\<rparr>)\<rparr>)"
  using assms by (simp add: ResumeInBackground_def GetJob_def Let_def emit_def store_def)

lemma ResumeInBackground_not_delivered:
  assumes "jobs (jm w) jobID = Some a"
    and "Status (heap w a) = JobStatusStopped"
    and "process_of (heap w a) = Some p"
    and "Signal os p = Some e"
  shows "ResumeInBackground os jobID w =
    (Err (ResumeFailed e),
     w\<lparr>trace := trace w @ [OutResuming (ID (heap w a)) (Command (heap w a)), SentSIGCONT p]\<rparr>)"
  using assms by (simp add: ResumeInBackground_def GetJob_def Let_def emit_def store_def)

lemma ResumeInBackground_never_blocks: "fst (ResumeInBackground os jobID w) \<noteq> Blocked"
  by (simp add: ResumeInBackground_def GetJob_def Let_def split: option.split)

lemmas example_defs =
  example_world_def example_job_def example_os_def started_def process_of_def

section \<open>Bringing a job to the foreground\<close>

text \<open>
  C1, as the claim states it, fails on two jobs that are tracked and not done. The first
  is running and has no started process (\<open>Cmd\<close> is nil): \<open>BringToForeground\<close> returns nil
  and removes the job, and has neither waited nor written to the job, which is still
  running, in the background and without an end time. The second is stopped and has a
  started process to which the continue signal cannot be delivered: the error is
  returned, and the job stays in the table, stopped.
\<close>

theorem bring_to_foreground_counterexample:
  "jobs (jm (example_world JobStatusRunning None True)) 1 = Some 0 \<and>
   Status (heap (example_world JobStatusRunning None True) 0) = JobStatusRunning \<and>
   fst (BringToForeground (example_os None (Exited None)) 1
          (example_world JobStatusRunning None True)) = Ok \<and>
   jobs (jm (snd (BringToForeground (example_os None (Exited None)) 1
          (example_world JobStatusRunning None True)))) 1 = None \<and>
   Status (heap (snd (BringToForeground (example_os None (Exited None)) 1
          (example_world JobStatusRunning None True))) 0) = JobStatusRunning \<and>
   EndTime (heap (snd (BringToForeground (example_os None (Exited None)) 1
          (example_world JobStatusRunning None True))) 0) = None \<and>
   Background (heap (snd (BringToForeground (example_os None (Exited None)) 1
          (example_world JobStatusRunning None True))) 0) = True \<and>
   trace (snd (BringToForeground (example_os None (Exited None)) 1
          (example_world JobStatusRunning None True))) = [OutBringToForeground 1 ''sleep 5''] \<and>
   jobs (jm (example_world JobStatusStopped started True)) 1 = Some 0 \<and>
   Status (heap (example_world JobStatusStopped started True) 0) = JobStatusStopped \<and>
   fst (BringToForeground (example_os (Some ''operation not permitted'') (Exited None)) 1
          (example_world JobStatusStopped started True)) =
     Err (ResumeFailed ''operation not permitted'') \<and>
   jobs (jm (snd (BringToForeground (example_os (Some ''operation not permitted'') (Exited None)) 1
          (example_world JobStatusStopped started True)))) 1 = Some 0 \<and>
   Status (heap (snd (BringToForeground (example_os (Some ''operation not permitted'') (Exited None)) 1
          (example_world JobStatusStopped started True))) 0) = JobStatusStopped \<and>
   EndTime (heap (snd (BringToForeground (example_os (Some ''operation not permitted'') (Exited None)) 1
          (example_world JobStatusStopped started True))) 0) = None \<and>
   trace (snd (BringToForeground (example_os (Some ''operation not permitted'') (Exited None)) 1
          (example_world JobStatusStopped started True))) =
     [OutBringToForeground 1 ''sleep 5'', SentSIGCONT 4242]"
  by (simp add: BringToForeground_def GetJob_def Let_def emit_def delete_job_def example_defs)

text \<open>
  C1, amended. For every tracked job whose status is not Done and that has a started
  process (\<open>Cmd\<close> and \<open>Cmd.Process\<close> are not nil), when the continue signal that a stopped
  job is sent first is delivered: \<open>BringToForeground\<close> sets the status to Running and
  the background flag to false and waits for the process. If the process never exits the
  call blocks, with the job in that state and in the table. When the process exits, the
  status is set to Done and the end time to the time now, the job is removed from the
  table and nil is returned; the job, if it was in the table under this id alone, is in no
  later list of the jobs. What happens outside the call is, in order: the line that
  announces the job, the continue signal if the job was stopped, the wait, and a line
  with the error of the wait if there is one.
\<close>

theorem bring_to_foreground_started_process:
  assumes tracked: "jobs (jm w) jobID = Some a"
    and not_done: "Status (heap w a) \<noteq> JobStatusDone"
    and process: "process_of (heap w a) = Some p"
    and delivered: "Status (heap w a) = JobStatusStopped \<longrightarrow> Signal os p = None"
  shows "(Wait os p = NeverExits \<longrightarrow>
            fst (BringToForeground os jobID w) = Blocked \<and>
            jm (snd (BringToForeground os jobID w)) = jm w \<and>
            heap (snd (BringToForeground os jobID w)) =
              (heap w)(a := (heap w a)\<lparr>Status := JobStatusRunning, Background := False\<rparr>) \<and>
            trace (snd (BringToForeground os jobID w)) =
              trace w @ [OutBringToForeground (ID (heap w a)) (Command (heap w a))] @
              (if Status (heap w a) = JobStatusStopped then [SentSIGCONT p] else []) @ [Waited p]) \<and>
         (\<forall>r. Wait os p = Exited r \<longrightarrow>
            fst (BringToForeground os jobID w) = Ok \<and>
            jobs (jm (snd (BringToForeground os jobID w))) = (jobs (jm w))(jobID := None) \<and>
            jobCounter (jm (snd (BringToForeground os jobID w))) = jobCounter (jm w) \<and>
            heap (snd (BringToForeground os jobID w)) =
              (heap w)(a := (heap w a)\<lparr>Background := False, Status := JobStatusDone,
                                          EndTime := Some (Now os)\<rparr>) \<and>
            trace (snd (BringToForeground os jobID w)) =
              trace w @ [OutBringToForeground (ID (heap w a)) (Command (heap w a))] @
              (if Status (heap w a) = JobStatusStopped then [SentSIGCONT p] else []) @ [Waited p] @
              (case r of None \<Rightarrow> [] | Some e \<Rightarrow> [OutExitedWithError (ID (heap w a)) e]) \<and>
            ((\<forall>k. jobs (jm w) k = Some a \<longrightarrow> k = jobID) \<longrightarrow>
               (\<forall>os'. a \<notin> set (GetAllJobs os' (snd (BringToForeground os jobID w))))))"
proof (intro conjI allI impI)
  fix r os'
  assume w: "Wait os p = Exited r" and one: "\<forall>k. jobs (jm w) k = Some a \<longrightarrow> k = jobID"
  show "a \<notin> set (GetAllJobs os' (snd (BringToForeground os jobID w)))"
    using one by (auto simp: BringToForeground_exited [OF assms w] GetAllJobs_set split: if_splits)
qed (simp_all add: BringToForeground_blocked [OF assms] BringToForeground_exited [OF assms])

text \<open>
  The stopped job of the example, whose process exits with an error, and the same job
  when its process never exits.
\<close>

theorem bring_to_foreground_started_process_witness:
  "fst (BringToForeground (example_os None (Exited (Some ''exit status 1''))) 1
          (example_world JobStatusStopped started True)) = Ok \<and>
   jobs (jm (snd (BringToForeground (example_os None (Exited (Some ''exit status 1''))) 1
          (example_world JobStatusStopped started True)))) = Map.empty \<and>
   heap (snd (BringToForeground (example_os None (Exited (Some ''exit status 1''))) 1
          (example_world JobStatusStopped started True))) 0 =
     \<lparr>ID = 1, PID = 4242, Command = ''sleep 5'', Args = [''sleep'', ''5''],
      Status = JobStatusDone, Cmd = started, StartTime = 100, EndTime = Some 200,
      Background = False\<rparr> \<and>
   trace (snd (BringToForeground (example_os None (Exited (Some ''exit status 1''))) 1
          (example_world JobStatusStopped started True))) =
     [OutBringToForeground 1 ''sleep 5'', SentSIGCONT 4242, Waited 4242,
      OutExitedWithError 1 ''exit status 1''] \<and>
   0 \<notin> set (GetAllJobs (example_os None (Exited (Some ''exit status 1'')))
     (snd (BringToForeground (example_os None (Exited (Some ''exit status 1''))) 1
          (example_world JobStatusStopped started True)))) \<and>
   fst (BringToForeground (example_os None NeverExits) 1
          (example_world JobStatusStopped started True)) = Blocked \<and>
   jobs (jm (snd (BringToForeground (example_os None NeverExits) 1
          (example_world JobStatusStopped started True)))) = [1 \<mapsto> 0] \<and>
   heap (snd (BringToForeground (example_os None NeverExits) 1
          (example_world JobStatusStopped started True))) 0 =
     \<lparr>ID = 1, PID = 4242, Command = ''sleep 5'', Args = [''sleep'', ''5''],
      Status = JobStatusRunning, Cmd = started, StartTime = 100, EndTime = None,
      Background = False\<rparr>"
proof -
  let ?w = "example_world JobStatusStopped started True"
  let ?os = "example_os None (Exited (Some ''exit status 1''))"
  have tracked: "jobs (jm ?w) 1 = Some 0" by (simp add: example_defs)
  have not_done: "Status (heap ?w 0) \<noteq> JobStatusDone" by (simp add: example_defs)
  have process: "process_of (heap ?w 0) = Some 4242" by (simp add: example_defs)
  have delivered: "Status (heap ?w 0) = JobStatusStopped \<longrightarrow> Signal os' 4242 = None"
    if "os' = example_os None wr" for os' wr
    using that by (simp add: example_defs)
  have only: "\<forall>k. jobs (jm ?w) k = Some 0 \<longrightarrow> k = 1" by (simp add: example_defs)
  have exits: "Wait ?os 4242 = Exited (Some ''exit status 1'')" by (simp add: example_defs)
  have never: "Wait (example_os None NeverExits) 4242 = NeverExits" by (simp add: example_defs)
  note a = bring_to_foreground_started_process [OF tracked not_done process delivered [OF refl],
      of "Exited (Some ''exit status 1'')"]
  note b = bring_to_foreground_started_process [OF tracked not_done process delivered [OF refl],
      of NeverExits]
  have empty: "0 \<notin> set (GetAllJobs ?os (snd (BringToForeground ?os 1 ?w)))"
    using a exits only by blast
  from a exits have 1: "fst (BringToForeground ?os 1 ?w) = Ok"
    and 2: "jobs (jm (snd (BringToForeground ?os 1 ?w))) = (jobs (jm ?w))(1 := None)"
    and 3: "heap (snd (BringToForeground ?os 1 ?w)) =
              (heap ?w)(0 := (heap ?w 0)\<lparr>Background := False, Status := JobStatusDone,
                                          EndTime := Some (Now ?os)\<rparr>)"
    and 4: "trace (snd (BringToForeground ?os 1 ?w)) =
              trace ?w @ [OutBringToForeground (ID (heap ?w 0)) (Command (heap ?w 0))] @
              (if Status (heap ?w 0) = JobStatusStopped then [SentSIGCONT 4242] else []) @ [Waited 4242] @
              [OutExitedWithError (ID (heap ?w 0)) ''exit status 1'']"
    by simp_all
  from b never have 5: "fst (BringToForeground (example_os None NeverExits) 1 ?w) = Blocked"
    and 6: "jm (snd (BringToForeground (example_os None NeverExits) 1 ?w)) = jm ?w"
    and 7: "heap (snd (BringToForeground (example_os None NeverExits) 1 ?w)) =
              (heap ?w)(0 := (heap ?w 0)\<lparr>Status := JobStatusRunning, Background := False\<rparr>)"
    by simp_all
  show ?thesis
    using empty unfolding 1 2 3 4 5 6 7
    by (simp add: example_defs)
qed

section \<open>Killing a job\<close>

text \<open>
  C2, as the claim states it, fails on a job as a registration leaves it (running, with
  no end time, its process started) when the kill cannot be delivered to the process:
  \<open>KillJob\<close> returns the error and the job is still running, with no end time, so that
  a second kill, which is delivered, returns nil and not the error of a job already
  done. It fails also on a tracked job that is running and has no started process (\<open>Cmd\<close>
  is nil): \<open>KillJob\<close> returns nil and has written nothing, and so does the second kill.
\<close>

theorem kill_counterexample:
  "jobs (jm (example_world JobStatusRunning started True)) 1 = Some 0 \<and>
   Status (heap (example_world JobStatusRunning started True) 0) = JobStatusRunning \<and>
   EndTime (heap (example_world JobStatusRunning started True) 0) = None \<and>
   fst (KillJob (example_os (Some ''operation not permitted'') NeverExits) 1
          (example_world JobStatusRunning started True)) =
     Err (KillFailed ''operation not permitted'') \<and>
   Status (heap (snd (KillJob (example_os (Some ''operation not permitted'') NeverExits) 1
          (example_world JobStatusRunning started True))) 0) = JobStatusRunning \<and>
   EndTime (heap (snd (KillJob (example_os (Some ''operation not permitted'') NeverExits) 1
          (example_world JobStatusRunning started True))) 0) = None \<and>
   fst (KillJob (example_os None NeverExits) 1
         (snd (KillJob (example_os (Some ''operation not permitted'') NeverExits) 1
                 (example_world JobStatusRunning started True)))) = Ok \<and>
   jobs (jm (example_world JobStatusRunning None True)) 1 = Some 0 \<and>
   Status (heap (example_world JobStatusRunning None True) 0) = JobStatusRunning \<and>
   fst (KillJob (example_os None NeverExits) 1 (example_world JobStatusRunning None True)) = Ok \<and>
   Status (heap (snd (KillJob (example_os None NeverExits) 1
          (example_world JobStatusRunning None True))) 0) = JobStatusRunning \<and>
   EndTime (heap (snd (KillJob (example_os None NeverExits) 1
          (example_world JobStatusRunning None True))) 0) = None \<and>
   trace (snd (KillJob (example_os None NeverExits) 1
          (example_world JobStatusRunning None True))) = [OutTerminating 1 ''sleep 5''] \<and>
   fst (KillJob (example_os None NeverExits) 1
         (snd (KillJob (example_os None NeverExits) 1
                 (example_world JobStatusRunning None True)))) = Ok"
  by (simp add: KillJob_def GetJob_def Let_def emit_def store_def example_defs)

text \<open>
  C2, amended. For every tracked job with status Running that has a started process
  (\<open>Cmd\<close> and \<open>Cmd.Process\<close> are not nil), when the kill is delivered to the process:
  \<open>KillJob\<close> returns nil, has set the status of the job to Done and its end time to the
  time now, and has left the job in the table; a second \<open>KillJob\<close> on the same id then
  returns the error of a job that has already completed, whatever the operating system
  would answer, and changes nothing.
\<close>

theorem kill_started_process:
  assumes "jobs (jm w) jobID = Some a"
    and "Status (heap w a) = JobStatusRunning"
    and "process_of (heap w a) = Some p"
    and "Kill os p = None"
  shows "fst (KillJob os jobID w) = Ok \<and>
    jm (snd (KillJob os jobID w)) = jm w \<and>
    heap (snd (KillJob os jobID w)) =
      (heap w)(a := (heap w a)\<lparr>Status := JobStatusDone, EndTime := Some (Now os)\<rparr>) \<and>
    trace (snd (KillJob os jobID w)) =
      trace w @ [OutTerminating (ID (heap w a)) (Command (heap w a)), SentKill p] \<and>
    KillJob os' jobID (snd (KillJob os jobID w)) =
      (Err (JobAlreadyCompleted jobID), snd (KillJob os jobID w))"
proof -
  from assms have eq: "KillJob os jobID w =
    (Ok,
     w\<lparr>trace := trace w @ [OutTerminating (ID (heap w a)) (Command (heap w a)), SentKill p],
       heap := (heap w)(a := (heap w a)\<lparr>Status := JobStatusDone, EndTime := Some (Now os)\<rparr>)\<rparr>)"
    by (intro KillJob_delivered) simp_all
  have "KillJob os' jobID (snd (KillJob os jobID w)) =
      (Err (JobAlreadyCompleted jobID), snd (KillJob os jobID w))"
    by (rule KillJob_done [where a = a]) (simp_all add: eq assms)
  then show ?thesis by (simp add: eq)
qed

text \<open>The running job of the example, killed, and killed again.\<close>

theorem kill_started_process_witness:
  "fst (KillJob (example_os None NeverExits) 1 (example_world JobStatusRunning started True)) = Ok \<and>
   jobs (jm (snd (KillJob (example_os None NeverExits) 1
                    (example_world JobStatusRunning started True)))) = [1 \<mapsto> 0] \<and>
   heap (snd (KillJob (example_os None NeverExits) 1
                (example_world JobStatusRunning started True))) 0 =
     \<lparr>ID = 1, PID = 4242, Command = ''sleep 5'', Args = [''sleep'', ''5''],
      Status = JobStatusDone, Cmd = started, StartTime = 100, EndTime = Some 200,
      Background = True\<rparr> \<and>
   fst (KillJob (example_os None NeverExits) 1
         (snd (KillJob (example_os None NeverExits) 1
                 (example_world JobStatusRunning started True)))) = Err (JobAlreadyCompleted 1)"
proof -
  let ?w = "example_world JobStatusRunning started True"
  let ?os = "example_os None NeverExits"
  have tracked: "jobs (jm ?w) 1 = Some 0" by (simp add: example_defs)
  have running: "Status (heap ?w 0) = JobStatusRunning" by (simp add: example_defs)
  have process: "process_of (heap ?w 0) = Some 4242" by (simp add: example_defs)
  have delivered: "Kill ?os 4242 = None" by (simp add: example_defs)
  note k = kill_started_process [OF tracked running process delivered, of ?os]
  from k have 1: "fst (KillJob ?os 1 ?w) = Ok"
    and 2: "jm (snd (KillJob ?os 1 ?w)) = jm ?w"
    and 3: "heap (snd (KillJob ?os 1 ?w)) =
      (heap ?w)(0 := (heap ?w 0)\<lparr>Status := JobStatusDone, EndTime := Some (Now ?os)\<rparr>)"
    and 4: "KillJob ?os 1 (snd (KillJob ?os 1 ?w)) =
      (Err (JobAlreadyCompleted 1), snd (KillJob ?os 1 ?w))"
    by simp_all
  show ?thesis
    unfolding 1 2 3 4 by (simp add: example_defs)
qed

section \<open>Resuming a job in the background\<close>

text \<open>
  C4, as the claim states it, fails on two stopped jobs. The first has no started
  process (\<open>Cmd\<close> is nil): \<open>ResumeInBackground\<close> returns nil and has sent no signal and
  written nothing, so that the job is still stopped and not in the background. The
  second has a started process to which the continue signal cannot be delivered: the
  error is returned and the job is still stopped.
\<close>

theorem resume_in_background_counterexample:
  "jobs (jm (example_world JobStatusStopped None False)) 1 = Some 0 \<and>
   Status (heap (example_world JobStatusStopped None False) 0) = JobStatusStopped \<and>
   fst (ResumeInBackground (example_os None NeverExits) 1
          (example_world JobStatusStopped None False)) = Ok \<and>
   Status (heap (snd (ResumeInBackground (example_os None NeverExits) 1
          (example_world JobStatusStopped None False))) 0) = JobStatusStopped \<and>
   Background (heap (snd (ResumeInBackground (example_os None NeverExits) 1
          (example_world JobStatusStopped None False))) 0) = False \<and>
   trace (snd (ResumeInBackground (example_os None NeverExits) 1
          (example_world JobStatusStopped None False))) = [OutResuming 1 ''sleep 5''] \<and>
   jobs (jm (example_world JobStatusStopped started False)) 1 = Some 0 \<and>
   Status (heap (example_world JobStatusStopped started False) 0) = JobStatusStopped \<and>
   fst (ResumeInBackground (example_os (Some ''operation not permitted'') NeverExits) 1
          (example_world JobStatusStopped started False)) =
     Err (ResumeFailed ''operation not permitted'') \<and>
   Status (heap (snd (ResumeInBackground (example_os (Some ''operation not permitted'') NeverExits) 1
          (example_world JobStatusStopped started False))) 0) = JobStatusStopped \<and>
   Background (heap (snd (ResumeInBackground (example_os (Some ''operation not permitted'') NeverExits) 1
          (example_world JobStatusStopped started False))) 0) = False"
  by (simp add: ResumeInBackground_def GetJob_def Let_def emit_def store_def example_defs)

text \<open>
  C4, amended. \<open>ResumeInBackground\<close> fails with the error of a job not found when the
  id is not in the table, of a job already completed when the status is Done, and of a
  job not stopped when the status is neither Done nor Stopped; the table and the jobs
  are then as they were. On a stopped job that has a started process it sends the continue
  signal: when the signal is delivered it sets the status to Running and the background
  flag to true and returns nil, and when it is not, it returns the error of the signal
  and writes nothing. It never blocks, and the job stays in the table.
\<close>

theorem resume_in_background_cases:
  "(jobs (jm w) jobID = None \<longrightarrow>
      ResumeInBackground os jobID w = (Err (JobNotFound jobID), w)) \<and>
   (jobs (jm w) jobID = Some a \<and> Status (heap w a) = JobStatusDone \<longrightarrow>
      ResumeInBackground os jobID w = (Err (JobAlreadyCompleted jobID), w)) \<and>
   (jobs (jm w) jobID = Some a \<and> Status (heap w a) \<noteq> JobStatusDone \<and>
    Status (heap w a) \<noteq> JobStatusStopped \<longrightarrow>
      ResumeInBackground os jobID w = (Err (JobNotStopped jobID), w)) \<and>
   (jobs (jm w) jobID = Some a \<and> Status (heap w a) = JobStatusStopped \<and>
    process_of (heap w a) = Some p \<and> Signal os p = None \<longrightarrow>
      fst (ResumeInBackground os jobID w) = Ok \<and>
      jm (snd (ResumeInBackground os jobID w)) = jm w \<and>
      heap (snd (ResumeInBackground os jobID w)) =
        (heap w)(a := (heap w a)\<lparr>Status := JobStatusRunning, Background := True\<rparr>) \<and>
      trace (snd (ResumeInBackground os jobID w)) =
        trace w @ [OutResuming (ID (heap w a)) (Command (heap w a)), SentSIGCONT p]) \<and>
   (jobs (jm w) jobID = Some a \<and> Status (heap w a) = JobStatusStopped \<and>
    process_of (heap w a) = Some p \<and> Signal os p = Some e \<longrightarrow>
      fst (ResumeInBackground os jobID w) = Err (ResumeFailed e) \<and>
      jm (snd (ResumeInBackground os jobID w)) = jm w \<and>
      heap (snd (ResumeInBackground os jobID w)) = heap w \<and>
      trace (snd (ResumeInBackground os jobID w)) =
        trace w @ [OutResuming (ID (heap w a)) (Command (heap w a)), SentSIGCONT p]) \<and>
   fst (ResumeInBackground os jobID w) \<noteq> Blocked"
proof (intro conjI)
  show "jobs (jm w) jobID = None \<longrightarrow>
      ResumeInBackground os jobID w = (Err (JobNotFound jobID), w)"
    by (simp add: ResumeInBackground_def GetJob_def)
  show "jobs (jm w) jobID = Some a \<and> Status (heap w a) = JobStatusDone \<longrightarrow>
      ResumeInBackground os jobID w = (Err (JobAlreadyCompleted jobID), w)"
    by (simp add: ResumeInBackground_def GetJob_def)
  show "jobs (jm w) jobID = Some a \<and> Status (heap w a) \<noteq> JobStatusDone \<and>
    Status (heap w a) \<noteq> JobStatusStopped \<longrightarrow>
      ResumeInBackground os jobID w = (Err (JobNotStopped jobID), w)"
    by (simp add: ResumeInBackground_def GetJob_def)
  show "fst (ResumeInBackground os jobID w) \<noteq> Blocked"
    by (rule ResumeInBackground_never_blocks)
qed (simp_all add: ResumeInBackground_delivered ResumeInBackground_not_delivered)

text \<open>
  The job of the example in each case: an id that is not in the table, the job done,
  running, stopped with the signal delivered, and stopped with the signal not delivered.
\<close>

theorem resume_in_background_cases_witness:
  "ResumeInBackground (example_os None NeverExits) 2 (example_world JobStatusStopped started False) =
     (Err (JobNotFound 2), example_world JobStatusStopped started False) \<and>
   ResumeInBackground (example_os None NeverExits) 1 (example_world JobStatusDone started False) =
     (Err (JobAlreadyCompleted 1), example_world JobStatusDone started False) \<and>
   ResumeInBackground (example_os None NeverExits) 1 (example_world JobStatusRunning started False) =
     (Err (JobNotStopped 1), example_world JobStatusRunning started False) \<and>
   fst (ResumeInBackground (example_os None NeverExits) 1
          (example_world JobStatusStopped started False)) = Ok \<and>
   jobs (jm (snd (ResumeInBackground (example_os None NeverExits) 1
          (example_world JobStatusStopped started False)))) = [1 \<mapsto> 0] \<and>
   heap (snd (ResumeInBackground (example_os None NeverExits) 1
          (example_world JobStatusStopped started False))) 0 =
     \<lparr>ID = 1, PID = 4242, Command = ''sleep 5'', Args = [''sleep'', ''5''],
      Status = JobStatusRunning, Cmd = started, StartTime = 100, EndTime = None,
      Background = True\<rparr> \<and>
   trace (snd (ResumeInBackground (example_os None NeverExits) 1
          (example_world JobStatusStopped started False))) =
     [OutResuming 1 ''sleep 5'', SentSIGCONT 4242] \<and>
   fst (ResumeInBackground (example_os (Some ''operation not permitted'') NeverExits) 1
          (example_world JobStatusStopped started False)) =
     Err (ResumeFailed ''operation not permitted'') \<and>
   heap (snd (ResumeInBackground (example_os (Some ''operation not permitted'') NeverExits) 1
          (example_world JobStatusStopped started False))) 0 =
     example_job JobStatusStopped started False"
proof -
  let ?os = "example_os None NeverExits"
  let ?bad = "example_os (Some ''operation not permitted'') NeverExits"
  let ?w = "example_world JobStatusStopped started False"
  note r1 = resume_in_background_cases [where w = ?w and jobID = 2 and os = ?os]
  note r2 = resume_in_background_cases
    [where w = "example_world JobStatusDone started False" and jobID = 1 and a = 0 and os = ?os]
  note r3 = resume_in_background_cases
    [where w = "example_world JobStatusRunning started False" and jobID = 1 and a = 0 and os = ?os]
  note r4 = resume_in_background_cases
    [where w = ?w and jobID = 1 and a = 0 and os = ?os and p = 4242]
  note r5 = resume_in_background_cases
    [where w = ?w and jobID = 1 and a = 0 and os = ?bad and p = 4242
       and e = "''operation not permitted''"]
  have c1: "ResumeInBackground ?os 2 ?w = (Err (JobNotFound 2), ?w)"
    using r1 by (simp add: example_defs)
  have c2: "ResumeInBackground ?os 1 (example_world JobStatusDone started False) =
     (Err (JobAlreadyCompleted 1), example_world JobStatusDone started False)"
    using r2 by (simp add: example_defs)
  have c3: "ResumeInBackground ?os 1 (example_world JobStatusRunning started False) =
     (Err (JobNotStopped 1), example_world JobStatusRunning started False)"
    using r3 by (simp add: example_defs)
  have h4: "jobs (jm ?w) 1 = Some 0 \<and> Status (heap ?w 0) = JobStatusStopped \<and>
    process_of (heap ?w 0) = Some 4242 \<and> Signal ?os 4242 = None"
    by (simp add: example_defs)
  have h5: "jobs (jm ?w) 1 = Some 0 \<and> Status (heap ?w 0) = JobStatusStopped \<and>
    process_of (heap ?w 0) = Some 4242 \<and> Signal ?bad 4242 = Some ''operation not permitted''"
    by (simp add: example_defs)
  from r4 h4 have c4: "fst (ResumeInBackground ?os 1 ?w) = Ok"
    and c4a: "jm (snd (ResumeInBackground ?os 1 ?w)) = jm ?w"
    and c4b: "heap (snd (ResumeInBackground ?os 1 ?w)) =
        (heap ?w)(0 := (heap ?w 0)\<lparr>Status := JobStatusRunning, Background := True\<rparr>)"
    and c4c: "trace (snd (ResumeInBackground ?os 1 ?w)) =
        trace ?w @ [OutResuming (ID (heap ?w 0)) (Command (heap ?w 0)), SentSIGCONT 4242]"
    by blast+
  from r5 h5 have c5: "fst (ResumeInBackground ?bad 1 ?w) = Err (ResumeFailed ''operation not permitted'')"
    and c5a: "heap (snd (ResumeInBackground ?bad 1 ?w)) = heap ?w"
    by blast+
  show ?thesis
    unfolding c1 c2 c3 c4 c4a c4b c4c c5 c5a
    by (simp add: example_defs)
qed

section \<open>Cleaning up the completed jobs\<close>

lemma sorted_list_of_set_filter:
  fixes A :: "int set"
  assumes "finite A"
  shows "sorted_list_of_set {k \<in> A. P k} = filter P (sorted_list_of_set A)"
proof (rule sorted_distinct_set_unique)
  show "sorted (sorted_list_of_set {k \<in> A. P k})" by simp
  show "distinct (sorted_list_of_set {k \<in> A. P k})" by simp
  show "sorted (filter P (sorted_list_of_set A))" by (simp add: sorted_wrt_filter)
  show "distinct (filter P (sorted_list_of_set A))" by simp
  show "set (sorted_list_of_set {k \<in> A. P k}) = set (filter P (sorted_list_of_set A))"
    using assms by auto
qed

lemma cleanup_step_fields:
  "heap (cleanup_step k w) = heap w"
  "jobCounter (jm (cleanup_step k w)) = jobCounter (jm w)"
  "trace (cleanup_step k w) = trace w"
  "allocated (cleanup_step k w) = allocated w"
  by (simp_all add: cleanup_step_def delete_job_def split: option.split)

lemma cleanup_step_jobs:
  "jobs (jm (cleanup_step k w)) =
    (case jobs (jm w) k of
       None \<Rightarrow> jobs (jm w)
     | Some a \<Rightarrow> if Status (heap w a) = JobStatusDone then (jobs (jm w))(k := None) else jobs (jm w))"
  by (simp add: cleanup_step_def delete_job_def split: option.split)

lemma cleanup_fold_fields:
  "heap (fold cleanup_step ks w) = heap w \<and>
   jobCounter (jm (fold cleanup_step ks w)) = jobCounter (jm w) \<and>
   trace (fold cleanup_step ks w) = trace w \<and>
   allocated (fold cleanup_step ks w) = allocated w"
  by (induction ks arbitrary: w) (simp_all add: cleanup_step_fields)

text \<open>
  The loop over any list of keys: an entry is gone when the loop comes to its key and its
  job is done, and every other entry is as it was.
\<close>

lemma cleanup_fold_jobs:
  "jobs (jm (fold cleanup_step ks w)) k =
    (case jobs (jm w) k of
       None \<Rightarrow> None
     | Some a \<Rightarrow> if k \<in> set ks \<and> Status (heap w a) = JobStatusDone then None else Some a)"
proof (induction ks arbitrary: w)
  case Nil
  show ?case by (simp split: option.split)
next
  case (Cons x ks)
  show ?case
    by (auto simp: Cons.IH cleanup_step_fields cleanup_step_jobs split: option.split)
qed

lemma CleanupCompletedJobs_jobs:
  assumes "ranges_over os w"
  shows "jobs (jm (CleanupCompletedJobs os w)) =
    (\<lambda>k. case jobs (jm w) k of
            None \<Rightarrow> None
          | Some a \<Rightarrow> if Status (heap w a) = JobStatusDone then None else Some a)"
proof
  fix k
  from assms have "k \<in> set (RangeOrder os)" if "jobs (jm w) k = Some a" for a
    using that by (auto simp: ranges_over_def)
  then show "jobs (jm (CleanupCompletedJobs os w)) k =
    (case jobs (jm w) k of
            None \<Rightarrow> None
          | Some a \<Rightarrow> if Status (heap w a) = JobStatusDone then None else Some a)"
    by (simp add: CleanupCompletedJobs_def cleanup_fold_jobs split: option.split)
qed

lemma GetAllJobs_cleanup:
  "GetAllJobs os (CleanupCompletedJobs os w) =
     filter (\<lambda>a. Status (heap w a) \<noteq> JobStatusDone) (GetAllJobs os w)"
proof -
  have "List.map_filter (\<lambda>k. jobs (jm (fold cleanup_step ks w)) k) ks' =
        filter (\<lambda>a. Status (heap w a) \<noteq> JobStatusDone) (List.map_filter (jobs (jm w)) ks')"
    if "set ks' \<subseteq> set ks" for ks ks'
    using that
    by (induction ks') (auto simp: cleanup_fold_jobs split: option.split)
  then show ?thesis by (simp add: GetAllJobs_def CleanupCompletedJobs_def)
qed

text \<open>
  C5. When the loop of \<open>CleanupCompletedJobs\<close> goes through the keys of the table (in
  any order), it removes the entries whose job is done and only those: every other
  entry is in the table under the id it had, no job is written to, and the counter is as
  it was. The ids that remain are, in ascending order, the ids of before without those
  of the done jobs, and the list of the jobs, taken in the order of the loop, is the list
  of before without the done jobs.
\<close>

theorem cleanup_removes_done_jobs_only:
  assumes "ranges_over os w"
  shows "jobs (jm (CleanupCompletedJobs os w)) =
      (\<lambda>k. case jobs (jm w) k of
              None \<Rightarrow> None
            | Some a \<Rightarrow> if Status (heap w a) = JobStatusDone then None else Some a) \<and>
    heap (CleanupCompletedJobs os w) = heap w \<and>
    jobCounter (jm (CleanupCompletedJobs os w)) = jobCounter (jm w) \<and>
    sorted_list_of_set (dom (jobs (jm (CleanupCompletedJobs os w)))) =
      filter (\<lambda>k. \<exists>a. jobs (jm w) k = Some a \<and> Status (heap w a) \<noteq> JobStatusDone)
        (sorted_list_of_set (dom (jobs (jm w)))) \<and>
    GetAllJobs os (CleanupCompletedJobs os w) =
      filter (\<lambda>a. Status (heap w a) \<noteq> JobStatusDone) (GetAllJobs os w)"
proof -
  note eq = CleanupCompletedJobs_jobs [OF assms]
  from assms have fin: "finite (dom (jobs (jm w)))"
    by (metis List.finite_set ranges_over_def)
  have "dom (jobs (jm (CleanupCompletedJobs os w))) =
    {k \<in> dom (jobs (jm w)). \<exists>a. jobs (jm w) k = Some a \<and> Status (heap w a) \<noteq> JobStatusDone}"
    by (auto simp: eq split: option.splits if_splits)
  then have "sorted_list_of_set (dom (jobs (jm (CleanupCompletedJobs os w)))) =
      filter (\<lambda>k. \<exists>a. jobs (jm w) k = Some a \<and> Status (heap w a) \<noteq> JobStatusDone)
        (sorted_list_of_set (dom (jobs (jm w))))"
    by (simp add: sorted_list_of_set_filter [OF fin])
  moreover have "heap (CleanupCompletedJobs os w) = heap w"
    and "jobCounter (jm (CleanupCompletedJobs os w)) = jobCounter (jm w)"
    by (simp_all add: cleanup_fold_fields CleanupCompletedJobs_def)
  ultimately show ?thesis
    using eq GetAllJobs_cleanup [of os w] by simp
qed

text \<open>
  The table of two jobs, of which the second is done: the loop goes to key 2 first and
  then to key 1, and job 1 is what remains.
\<close>

theorem cleanup_removes_done_jobs_only_witness:
  "ranges_over (range_os [2, 1]) two_jobs \<and>
   jobs (jm (CleanupCompletedJobs (range_os [2, 1]) two_jobs)) = [1 \<mapsto> 0] \<and>
   heap (CleanupCompletedJobs (range_os [2, 1]) two_jobs) = heap two_jobs \<and>
   GetAllJobs (range_os [2, 1]) two_jobs = [1, 0] \<and>
   GetAllJobs (range_os [2, 1]) (CleanupCompletedJobs (range_os [2, 1]) two_jobs) = [0]"
proof -
  have r: "ranges_over (range_os [2, 1]) two_jobs"
    by (auto simp: ranges_over_def range_os_def two_jobs_def)
  have all: "GetAllJobs (range_os [2, 1]) two_jobs = [1, 0]"
    by (simp add: GetAllJobs_def range_os_def two_jobs_def)
  note c = cleanup_removes_done_jobs_only [OF r]
  from c have 1: "jobs (jm (CleanupCompletedJobs (range_os [2, 1]) two_jobs)) =
      (\<lambda>k. case jobs (jm two_jobs) k of
              None \<Rightarrow> None
            | Some a \<Rightarrow> if Status (heap two_jobs a) = JobStatusDone then None else Some a)"
    and 2: "heap (CleanupCompletedJobs (range_os [2, 1]) two_jobs) = heap two_jobs"
    and 3: "GetAllJobs (range_os [2, 1]) (CleanupCompletedJobs (range_os [2, 1]) two_jobs) =
      filter (\<lambda>a. Status (heap two_jobs a) \<noteq> JobStatusDone) (GetAllJobs (range_os [2, 1]) two_jobs)"
    by simp_all
  have 4: "(\<lambda>k. case jobs (jm two_jobs) k of
              None \<Rightarrow> None
            | Some a \<Rightarrow> if Status (heap two_jobs a) = JobStatusDone then None else Some a) = [1 \<mapsto> 0]"
    by (auto simp: two_jobs_def example_defs fun_eq_iff)
  have 5: "filter (\<lambda>a. Status (heap two_jobs a) \<noteq> JobStatusDone) [1, 0] = [0]"
    by (simp add: two_jobs_def example_defs)
  show ?thesis
    unfolding 1 2 3 4 all 5 using r by simp
qed

section \<open>Validation\<close>

lemma Contains_iff: "Contains s sub \<longleftrightarrow> (\<exists>u v. s = u @ sub @ v)"
proof (induction s)
  case Nil
  show ?case by auto
next
  case (Cons c cs)
  show ?case
  proof
    assume "Contains (c # cs) sub"
    then consider "take (length sub) (c # cs) = sub" | "Contains cs sub" by auto
    then show "\<exists>u v. c # cs = u @ sub @ v"
    proof cases
      case 1
      then have "c # cs = [] @ sub @ drop (length sub) (c # cs)"
        by (metis append_Nil append_take_drop_id)
      then show ?thesis by blast
    next
      case 2
      with Cons.IH obtain u v where "cs = u @ sub @ v" by blast
      then have "c # cs = (c # u) @ sub @ v" by simp
      then show ?thesis by blast
    qed
  next
    assume "\<exists>u v. c # cs = u @ sub @ v"
    then obtain u v where eq: "c # cs = u @ sub @ v" by blast
    show "Contains (c # cs) sub"
    proof (cases u)
      case Nil
      with eq have "take (length sub) (c # cs) = sub" by simp
      then show ?thesis by simp
    next
      case (Cons d u')
      with eq have "cs = u' @ sub @ v" by simp
      with Cons.IH have "Contains cs sub" by blast
      then show ?thesis by simp
    qed
  qed
qed

lemma validate_args_iff:
  "validate_args i args \<noteq> None \<longleftrightarrow> (\<exists>arg \<in> set args. length arg > 1024)"
  by (induction args arbitrary: i) auto

lemma validate_args_index:
  "validate_args i args = Some e \<Longrightarrow>
    \<exists>j < length args. e = ArgumentTooLong (i + j) \<and> length (args ! j) > 1024 \<and>
       (\<forall>j' < j. length (args ! j') \<le> 1024)"
proof (induction args arbitrary: i)
  case Nil
  then show ?case by simp
next
  case (Cons arg args)
  show ?case
  proof (cases "length arg > 1024")
    case True
    with Cons.prems have "e = ArgumentTooLong i" by simp
    with True show ?thesis by (intro exI [of _ 0]) simp
  next
    case False
    with Cons.prems have "validate_args (Suc i) args = Some e" by simp
    from Cons.IH [OF this] obtain j where j: "j < length args" "e = ArgumentTooLong (Suc i + j)"
      "length (args ! j) > 1024" "\<forall>j' < j. length (args ! j') \<le> 1024" by blast
    show ?thesis
    proof (intro exI [of _ "Suc j"] conjI allI impI)
      fix j' assume "j' < Suc j"
      with j(4) False show "length ((arg # args) ! j') \<le> 1024"
        by (cases j') auto
    qed (use j in simp_all)
  qed
qed

text \<open>
  C8. \<open>ValidateCommand\<close> accepts the nil command and every command with an empty name.
  A command with a name is rejected if and only if the name contains \<open>..\<close>, or the name
  contains one of the characters \<open>| ; & < > ( ) { } [ ]\<close>, or the name is longer than 256,
  or some argument is longer than 1024, or there are more than 100 arguments. The lengths
  are those of Go's \<open>len\<close>: the characters counted are the bytes of the string.
\<close>

theorem validate_rejects_iff:
  "ValidateCommand None = None \<and>
   (ParsedCommand.Command p = [] \<longrightarrow> ValidateCommand (Some p) = None) \<and>
   (ParsedCommand.Command p \<noteq> [] \<longrightarrow>
      (ValidateCommand (Some p) \<noteq> None \<longleftrightarrow>
         (\<exists>u v. ParsedCommand.Command p = u @ ''..'' @ v) \<or>
         (\<exists>c \<in> set (ParsedCommand.Command p). c \<in> set ''|;&<>(){}[]'') \<or>
         length (ParsedCommand.Command p) > 256 \<or>
         (\<exists>arg \<in> set (ParsedCommand.Args p). length arg > 1024) \<or>
         length (ParsedCommand.Args p) > 100))"
proof (intro conjI impI)
  show "ValidateCommand None = None" by (simp add: ValidateCommand_def)
  show "ValidateCommand (Some p) = None" if "ParsedCommand.Command p = []"
    using that by (simp add: ValidateCommand_def)
  assume ne: "ParsedCommand.Command p \<noteq> []"
  have any: "ContainsAny s cs \<longleftrightarrow> (\<exists>c \<in> set s. c \<in> set cs)" for s cs
    by (simp add: ContainsAny_def list_ex_iff)
  have args: "(case validate_args 0 (ParsedCommand.Args p) of
                 Some e \<Rightarrow> Some e
               | None \<Rightarrow> if length (ParsedCommand.Args p) > 100 then Some TooManyArguments else None) \<noteq> None
     \<longleftrightarrow> (\<exists>arg \<in> set (ParsedCommand.Args p). length arg > 1024) \<or> length (ParsedCommand.Args p) > 100"
    using validate_args_iff [of 0 "ParsedCommand.Args p"]
    by (cases "validate_args 0 (ParsedCommand.Args p)") auto
  show "ValidateCommand (Some p) \<noteq> None \<longleftrightarrow>
         (\<exists>u v. ParsedCommand.Command p = u @ ''..'' @ v) \<or>
         (\<exists>c \<in> set (ParsedCommand.Command p). c \<in> set ''|;&<>(){}[]'') \<or>
         length (ParsedCommand.Command p) > 256 \<or>
         (\<exists>arg \<in> set (ParsedCommand.Args p). length arg > 1024) \<or>
         length (ParsedCommand.Args p) > 100"
    unfolding ValidateCommand_def option.case if_not_P [OF ne] Contains_iff any
    using args by (simp only: split: if_split) blast
qed

text \<open>
  A name with \<open>..\<close> in it and an argument of 1025 characters are rejected; a command with
  an empty name and 101 arguments, and the command \<open>ls -l\<close>, are accepted.
\<close>

theorem validate_rejects_iff_witness:
  "ValidateCommand (Some (parsed_command ''cd..'' [''cd..''] False)) \<noteq> None \<and>
   ValidateCommand (Some (parsed_command ''ok'' [''ok'', replicate 1025 CHR ''a''] False)) \<noteq> None \<and>
   ValidateCommand (Some (parsed_command [] (replicate 101 ''x'') False)) = None \<and>
   ValidateCommand (Some (parsed_command ''ls'' [''ls'', ''-l''] False)) = None"
proof -
  let ?p1 = "parsed_command ''cd..'' [''cd..''] False"
  let ?p2 = "parsed_command ''ok'' [''ok'', replicate 1025 CHR ''a''] False"
  let ?p3 = "parsed_command [] (replicate 101 ''x'') False"
  let ?p4 = "parsed_command ''ls'' [''ls'', ''-l''] False"
  have "ParsedCommand.Command ?p1 = ''cd'' @ ''..'' @ []" by (simp add: parsed_command_def)
  then have d1: "\<exists>u v. ParsedCommand.Command ?p1 = u @ ''..'' @ v" by blast
  have 1: "ValidateCommand (Some ?p1) \<noteq> None"
    using validate_rejects_iff [of ?p1] d1 by (simp add: parsed_command_def)
  have 2: "ValidateCommand (Some ?p2) \<noteq> None"
    using validate_rejects_iff [of ?p2] by (simp add: parsed_command_def)
  have 3: "ValidateCommand (Some ?p3) = None"
    using validate_rejects_iff [of ?p3] by (simp add: parsed_command_def)
  have "\<not> Contains ''ls'' ''..''" by simp
  then have d4: "\<not> (\<exists>u v. ParsedCommand.Command ?p4 = u @ ''..'' @ v)"
    by (simp add: Contains_iff parsed_command_def)
  have 4: "ValidateCommand (Some ?p4) = None"
    using validate_rejects_iff [of ?p4] d4 by (simp add: parsed_command_def)
  from 1 2 3 4 show ?thesis by blast
qed

section \<open>The built-ins fg and bg on an empty table\<close>

lemma GetAllJobs_empty: "jobs (jm w) = Map.empty \<Longrightarrow> GetAllJobs os w = []"
  by (simp add: GetAllJobs_def map_filter_def)

lemma GetAllJobs_nonempty:
  assumes "ranges_over os w" and "jobs (jm w) \<noteq> Map.empty"
  shows "GetAllJobs os w \<noteq> []"
proof -
  from assms(2) obtain k a where ka: "jobs (jm w) k = Some a" by fastforce
  with assms(1) have "k \<in> set (RangeOrder os)" by (auto simp: ranges_over_def)
  with ka have "a \<in> set (GetAllJobs os w)" by (auto simp: GetAllJobs_set)
  then show ?thesis by auto
qed

lemma handleFG_empty_table:
  assumes "jobs (jm w) = Map.empty"
  shows "snd (handleFG os args w) = w" and "fst (handleFG os args w) \<noteq> Err (JobNotFound k)"
  using GetAllJobs_empty [OF assms, of os]
  by (simp_all add: handleFG_def Let_def split: option.split)

lemma handleBG_empty_table:
  assumes "jobs (jm w) = Map.empty"
  shows "snd (handleBG os args w) = w" and "fst (handleBG os args w) \<noteq> Err (JobNotFound k)"
  using GetAllJobs_empty [OF assms, of os]
  by (simp_all add: handleBG_def Let_def split: option.split)

lemma Atoi_Some_nonempty: "Atoi s = Some k \<Longrightarrow> s \<noteq> []"
  by (auto simp: Atoi_def)

text \<open>
  C10. When the table is empty, \<open>fg\<close> and \<open>bg\<close> with a job id (an argument that
  \<open>Atoi\<close> reads as a positive integer) return the error that there are no jobs, and,
  whatever their arguments are, they leave the table and the jobs as they were and never
  return the error of a job not found. That error is what an id that is not in the table
  gets when the table holds at least one job.
\<close>

theorem no_jobs_error_before_lookup:
  "(jobs (jm w) = Map.empty \<longrightarrow>
      (Atoi s = Some jobID \<and> 0 < jobID \<longrightarrow>
         handleFG os [c, s] w = (Err (NoJobs ''fg''), w) \<and>
         handleBG os [c, s] w = (Err (NoJobs ''bg''), w)) \<and>
      fst (handleFG os args w) \<noteq> Err (JobNotFound k) \<and> snd (handleFG os args w) = w \<and>
      fst (handleBG os args w) \<noteq> Err (JobNotFound k) \<and> snd (handleBG os args w) = w) \<and>
   (jobs (jm w) \<noteq> Map.empty \<and> ranges_over os w \<and> jobs (jm w) jobID = None \<and>
    Atoi s = Some jobID \<and> 0 < jobID \<longrightarrow>
      handleFG os [c, s] w = (Err (JobNotFound jobID), w) \<and>
      handleBG os [c, s] w = (Err (JobNotFound jobID), w))"
proof (intro conjI impI)
  assume e: "jobs (jm w) = Map.empty" and "Atoi s = Some jobID \<and> 0 < jobID"
  then show "handleFG os [c, s] w = (Err (NoJobs ''fg''), w)"
    and "handleBG os [c, s] w = (Err (NoJobs ''bg''), w)"
    using GetAllJobs_empty [OF e, of os] Atoi_Some_nonempty [of s jobID]
    by (simp_all add: handleFG_def handleBG_def)
next
  assume a: "jobs (jm w) \<noteq> Map.empty \<and> ranges_over os w \<and> jobs (jm w) jobID = None \<and>
    Atoi s = Some jobID \<and> 0 < jobID"
  then have "GetAllJobs os w \<noteq> []" by (simp add: GetAllJobs_nonempty)
  with a show "handleFG os [c, s] w = (Err (JobNotFound jobID), w)"
    and "handleBG os [c, s] w = (Err (JobNotFound jobID), w)"
    using Atoi_Some_nonempty [of s jobID]
    by (simp_all add: handleFG_def handleBG_def BringToForeground_def ResumeInBackground_def
        GetJob_def)
qed (simp_all add: handleFG_empty_table handleBG_empty_table)

text \<open>
  \<open>fg 3\<close> and \<open>bg 3\<close> on the empty table, \<open>fg 7\<close> and \<open>bg 7\<close> on the table of two jobs.
\<close>

theorem no_jobs_error_before_lookup_witness:
  "handleFG (range_os []) [''fg'', ''3''] empty_world = (Err (NoJobs ''fg''), empty_world) \<and>
   handleBG (range_os []) [''bg'', ''3''] empty_world = (Err (NoJobs ''bg''), empty_world) \<and>
   handleFG (range_os [2, 1]) [''fg'', ''7''] two_jobs = (Err (JobNotFound 7), two_jobs) \<and>
   handleBG (range_os [2, 1]) [''bg'', ''7''] two_jobs = (Err (JobNotFound 7), two_jobs)"
proof -
  have e: "jobs (jm empty_world) = Map.empty"
    by (simp add: empty_world_def NewJobManager_def)
  have 3: "Atoi ''3'' = Some 3 \<and> (0::int) < 3" by code_simp
  have 7: "Atoi ''7'' = Some 7 \<and> (0::int) < 7" by code_simp
  have t: "jobs (jm two_jobs) \<noteq> Map.empty \<and> ranges_over (range_os [2, 1]) two_jobs \<and>
    jobs (jm two_jobs) 7 = None"
    by (auto simp: two_jobs_def ranges_over_def range_os_def)
  from e 3 t 7
    no_jobs_error_before_lookup [of empty_world "''3''" 3 "range_os []" "''fg''"]
    no_jobs_error_before_lookup [of empty_world "''3''" 3 "range_os []" "''bg''"]
    no_jobs_error_before_lookup [of two_jobs "''7''" 7 "range_os [2, 1]" "''fg''"]
    no_jobs_error_before_lookup [of two_jobs "''7''" 7 "range_os [2, 1]" "''bg''"]
  show ?thesis by blast
qed

section \<open>Commands that are not built in\<close>

lemma dispatch_not_builtin:
  assumes "ValidateCommand (Some p) = None"
    and "\<not> IsBuiltinCommand (ParsedCommand.Command p)"
  shows "dispatch os handler (Some p) w =
    (Err (if LookPath os (ParsedCommand.Command p)
          then CommandNotSupported (ParsedCommand.Command p)
          else CommandNotFound (ParsedCommand.Command p)), w)"
  using assms by (simp add: dispatch_def)

text \<open>
  C9. For every parsed command that passes the validation and whose name is not a
  built-in, the dispatch returns an error of a command not found: the one that says that
  only built-in commands are supported when \<open>LookPath\<close> finds the name, and the plain one
  when it does not. Nothing else is done, whatever the command handler of the shell is:
  no line is printed, no process is called, the table and the jobs are as they were.
\<close>

theorem external_command_not_found:
  assumes "ValidateCommand (Some p) = None"
    and "\<not> IsBuiltinCommand (ParsedCommand.Command p)"
  shows "dispatch os handler (Some p) w =
    (Err (if LookPath os (ParsedCommand.Command p)
          then CommandNotSupported (ParsedCommand.Command p)
          else CommandNotFound (ParsedCommand.Command p)), w)"
  using assms by (rule dispatch_not_builtin)

text \<open>
  \<open>vim\<close> is on the path of the example and \<open>frobnicate\<close> is not.
\<close>

theorem external_command_not_found_witness:
  "dispatch (range_os [2, 1]) (HandleCommand (range_os [2, 1]) example_builtin)
     (Some (parsed_command ''vim'' [''vim'', ''notes.txt''] False)) two_jobs =
     (Err (CommandNotSupported ''vim''), two_jobs) \<and>
   dispatch (range_os [2, 1]) (HandleCommand (range_os [2, 1]) example_builtin)
     (Some (parsed_command ''frobnicate'' [''frobnicate'', ''-x''] True)) two_jobs =
     (Err (CommandNotFound ''frobnicate''), two_jobs)"
proof -
  have v1: "ValidateCommand (Some (parsed_command ''vim'' [''vim'', ''notes.txt''] False)) = None"
    by code_simp
  have b1: "\<not> IsBuiltinCommand (ParsedCommand.Command (parsed_command ''vim'' [''vim'', ''notes.txt''] False))"
    by (simp add: IsBuiltinCommand_def parsed_command_def)
  have v2: "ValidateCommand (Some (parsed_command ''frobnicate'' [''frobnicate'', ''-x''] True)) = None"
    by code_simp
  have b2: "\<not> IsBuiltinCommand
      (ParsedCommand.Command (parsed_command ''frobnicate'' [''frobnicate'', ''-x''] True))"
    by (simp add: IsBuiltinCommand_def parsed_command_def)
  from external_command_not_found [OF v1 b1, of "range_os [2, 1]"
      "HandleCommand (range_os [2, 1]) example_builtin" two_jobs]
    external_command_not_found [OF v2 b2, of "range_os [2, 1]"
      "HandleCommand (range_os [2, 1]) example_builtin" two_jobs]
  show ?thesis
    by (simp add: range_os_def example_os_def parsed_command_def)
qed

text \<open>
  The same for a line: when the line parses to such a command, \<open>processInput\<close> returns
  that error and the state is as it was.
\<close>

lemma processInput_not_builtin:
  assumes "Parse input = Some p"
    and "ValidateCommand (Some p) = None"
    and "\<not> IsBuiltinCommand (ParsedCommand.Command p)"
  shows "processInput os builtin input w =
    (Err (if LookPath os (ParsedCommand.Command p)
          then CommandNotSupported (ParsedCommand.Command p)
          else CommandNotFound (ParsedCommand.Command p)), w)"
  using assms by (simp add: processInput_def dispatch_not_builtin)

section \<open>Reading and writing runes\<close>



lemma char_of_nat_byte: "n < 256 \<Longrightarrow> (of_char (char_of (n::nat)) :: nat) = n"
  by simp







lemma AppendRune_not_Nil: "AppendRune r \<noteq> []"
  by (auto simp: AppendRune_def)



section \<open>Tokenization\<close>
















section \<open>The ids of the registered jobs\<close>

lemma no_new_job_refl: "no_new_job w w"
  by (simp add: no_new_job_def)

lemma no_new_job_emit: "no_new_job w w' \<Longrightarrow> no_new_job w (emit e w')"
  by (simp add: no_new_job_def emit_def)

lemma no_new_job_delete: "no_new_job w w' \<Longrightarrow> no_new_job w (delete_job k w')"
  by (simp add: no_new_job_def delete_job_def)

lemma no_new_job_store:
  "no_new_job w w' \<Longrightarrow> ID job = ID (heap w' a) \<Longrightarrow> no_new_job w (store a job w')"
  by (simp add: no_new_job_def store_def)

lemma foreground_wait_no_new_job:
  assumes "no_new_job w w1"
  shows "no_new_job w (snd (foreground_wait os jobID a p w1))"
proof (cases "Wait os p")
  case NeverExits
  with assms show ?thesis
    by (simp add: foreground_wait_def Let_def no_new_job_emit no_new_job_store)
next
  case (Exited r)
  with assms show ?thesis
    by (cases r)
       (simp_all add: foreground_wait_def Let_def no_new_job_def emit_def store_def delete_job_def)
qed

lemma BringToForeground_no_new_job: "no_new_job w (snd (BringToForeground os jobID w))"
proof (cases "jobs (jm w) jobID")
  case None
  then show ?thesis by (simp add: BringToForeground_def GetJob_def no_new_job_refl)
next
  case (Some a)
  let ?w1 = "emit (OutBringToForeground (ID (heap w a)) (Command (heap w a))) w"
  have 1: "no_new_job w ?w1" by (simp add: no_new_job_emit no_new_job_refl)
  have 2: "no_new_job w (emit (SentSIGCONT p) ?w1)" for p
    by (simp add: no_new_job_emit no_new_job_refl)
  show ?thesis
    using Some 1 2 foreground_wait_no_new_job [OF 1] foreground_wait_no_new_job [OF 2]
    by (simp add: BringToForeground_def GetJob_def Let_def no_new_job_refl no_new_job_delete
        split: option.split)
qed

lemma ResumeInBackground_no_new_job: "no_new_job w (snd (ResumeInBackground os jobID w))"
  by (simp add: ResumeInBackground_def GetJob_def Let_def no_new_job_def emit_def store_def
      split: option.split)

lemma KillJob_no_new_job: "no_new_job w (snd (KillJob os jobID w))"
  by (simp add: KillJob_def GetJob_def Let_def no_new_job_def emit_def store_def
      split: option.split)

lemma CleanupCompletedJobs_no_new_job: "no_new_job w (CleanupCompletedJobs os w)"
  by (simp add: no_new_job_def CleanupCompletedJobs_def cleanup_fold_fields cleanup_fold_jobs
      split: option.splits if_splits)

lemma table_invariant_no_new_job:
  "table_invariant w \<Longrightarrow> no_new_job w w' \<Longrightarrow> table_invariant w'"
  unfolding table_invariant_def no_new_job_def by metis

lemma register_id: "fst (register os h c b w) = jobCounter (jm w) + 1"
  by (simp add: register_def Let_def)

lemma register_counter: "jobCounter (jm (snd (register os h c b w))) = jobCounter (jm w) + 1"
  by (simp add: register_def Let_def)

lemma register_invariant:
  assumes "table_invariant w"
  shows "table_invariant (snd (register os h c b w))"
proof -
  from assms have c: "0 \<le> jobCounter (jm w)"
    and e: "jobs (jm w) k = Some a \<Longrightarrow>
          0 < k \<and> k \<le> jobCounter (jm w) \<and> a < allocated w \<and> ID (heap w a) = k" for k a
    by (simp_all add: table_invariant_def)
  have "0 < k \<and> k \<le> jobCounter (jm (snd (register os h c b w))) \<and>
      a < allocated (snd (register os h c b w)) \<and> ID (heap (snd (register os h c b w)) a) = k"
    if ka: "jobs (jm (snd (register os h c b w))) k = Some a" for k a
  proof (cases "k = jobCounter (jm w) + 1")
    case True
    with ka c show ?thesis by (simp add: register_def Let_def)
  next
    case False
    with ka have old: "jobs (jm w) k = Some a" by (simp add: register_def Let_def)
    from e [OF old] show ?thesis by (simp add: register_def Let_def)
  qed
  moreover have "0 \<le> jobCounter (jm (snd (register os h c b w)))"
    using c by (simp add: register_counter)
  ultimately show ?thesis
    unfolding table_invariant_def by blast
qed

lemma run_Register:
  "run ((os, CallRegister h c b) # cs) w =
    ((jobCounter (jm w) + 1) # fst (run cs (snd (register os h c b w))),
     snd (run cs (snd (register os h c b w))))"
  using register_id [of os h c b w]
  by (cases "register os h c b w"; cases "run cs (snd (register os h c b w))") simp

lemma run_Foreground:
  "run ((os, CallForeground jobID) # cs) w =
    (if fst (BringToForeground os jobID w) = Blocked then ([], snd (BringToForeground os jobID w))
     else run cs (snd (BringToForeground os jobID w)))"
  by (cases "BringToForeground os jobID w"; cases "fst (BringToForeground os jobID w)") simp_all

lemma run_session:
  assumes "table_invariant w"
  shows "table_invariant (snd (run calls w)) \<and>
    jobCounter (jm w) \<le> jobCounter (jm (snd (run calls w))) \<and>
    sorted_wrt (<) (fst (run calls w)) \<and>
    (\<forall>i \<in> set (fst (run calls w)). jobCounter (jm w) < i \<and> i \<le> jobCounter (jm (snd (run calls w))))"
  using assms
proof (induction calls arbitrary: w)
  case Nil
  then show ?case by simp
next
  case (Cons x cs)
  obtain os call where x: "x = (os, call)" by (cases x)
  have step: ?case
    if eq: "run (x # cs) w = run cs w'" and nn: "no_new_job w w'" for w'
  proof -
    from Cons.prems nn have inv: "table_invariant w'" by (rule table_invariant_no_new_job)
    from nn have cnt: "jobCounter (jm w') = jobCounter (jm w)" by (simp add: no_new_job_def)
    from Cons.IH [OF inv] show ?thesis unfolding eq cnt .
  qed
  show ?case
  proof (cases call)
    case (CallRegister h c b)
    let ?w = "snd (register os h c b w)"
    from Cons.prems have inv: "table_invariant ?w" by (rule register_invariant)
    have cnt: "jobCounter (jm ?w) = jobCounter (jm w) + 1" by (rule register_counter)
    from Cons.IH [OF inv] show ?thesis
      unfolding x CallRegister run_Register cnt by auto
  next
    case (CallForeground jobID)
    let ?w = "snd (BringToForeground os jobID w)"
    have nn: "no_new_job w ?w" by (rule BringToForeground_no_new_job)
    show ?thesis
    proof (cases "fst (BringToForeground os jobID w) = Blocked")
      case True
      from Cons.prems nn have inv: "table_invariant ?w" by (rule table_invariant_no_new_job)
      from nn have cnt: "jobCounter (jm ?w) = jobCounter (jm w)" by (simp add: no_new_job_def)
      from True inv cnt show ?thesis
        unfolding x CallForeground run_Foreground by simp
    next
      case False
      then have "run (x # cs) w = run cs ?w"
        unfolding x CallForeground run_Foreground by simp
      then show ?thesis using nn by (rule step)
    qed
  next
    case (CallBackground jobID)
    have "run (x # cs) w = run cs (snd (ResumeInBackground os jobID w))"
      unfolding x CallBackground by simp
    then show ?thesis using ResumeInBackground_no_new_job by (rule step)
  next
    case (CallKill jobID)
    have "run (x # cs) w = run cs (snd (KillJob os jobID w))"
      unfolding x CallKill by simp
    then show ?thesis using KillJob_no_new_job by (rule step)
  next
    case CallCleanup
    have "run (x # cs) w = run cs (CleanupCompletedJobs os w)"
      unfolding x CallCleanup by simp
    then show ?thesis using CleanupCompletedJobs_no_new_job by (rule step)
  qed
qed

text \<open>
  C6. In a session that starts with the new, empty table, whatever calls are made on the
  table and whatever the operating system answers: the ids that the registrations return
  are positive and strictly increasing from one registration to the next, hence all
  different, so that no id is given twice, be it still in the table or removed from it;
  the next registration would return an id that is greater than all of them and is not in
  the table. At most one job is recorded for an id: the table maps an id to one job, whose
  field \<open>ID\<close> is that id, and no two ids to the same job.
\<close>

theorem register_ids_strictly_increase:
  assumes "jm w = NewJobManager"
  shows "sorted_wrt (<) (fst (run calls w)) \<and>
    distinct (fst (run calls w)) \<and>
    (\<forall>i \<in> set (fst (run calls w)). 0 < i \<and> i < fst (register os h c b (snd (run calls w)))) \<and>
    jobs (jm (snd (run calls w))) (fst (register os h c b (snd (run calls w)))) = None \<and>
    (\<forall>k a. jobs (jm (snd (run calls w))) k = Some a \<longrightarrow> ID (heap (snd (run calls w)) a) = k) \<and>
    inj_on (jobs (jm (snd (run calls w)))) (dom (jobs (jm (snd (run calls w)))))"
proof -
  let ?w = "snd (run calls w)"
  from assms have "table_invariant w"
    by (simp add: table_invariant_def NewJobManager_def)
  from run_session [OF this, of calls]
  have inv: "table_invariant ?w"
    and sorted: "sorted_wrt (<) (fst (run calls w))"
    and ids: "\<forall>i \<in> set (fst (run calls w)). jobCounter (jm w) < i \<and> i \<le> jobCounter (jm ?w)"
    by simp_all
  from assms have zero: "jobCounter (jm w) = 0" by (simp add: NewJobManager_def)
  from inv have entry: "0 < k \<and> k \<le> jobCounter (jm ?w) \<and> ID (heap ?w a) = k"
    if "jobs (jm ?w) k = Some a" for k a
    using that by (simp add: table_invariant_def)
  have "jobs (jm ?w) (jobCounter (jm ?w) + 1) = None"
  proof (cases "jobs (jm ?w) (jobCounter (jm ?w) + 1)")
    case (Some a)
    from entry [OF this] show ?thesis by simp
  qed simp
  moreover have "inj_on (jobs (jm ?w)) (dom (jobs (jm ?w)))"
  proof (rule inj_onI)
    fix k1 k2
    assume "k1 \<in> dom (jobs (jm ?w))" "k2 \<in> dom (jobs (jm ?w))"
      and eq: "jobs (jm ?w) k1 = jobs (jm ?w) k2"
    then obtain a where "jobs (jm ?w) k1 = Some a" "jobs (jm ?w) k2 = Some a" by auto
    from entry [OF this(1)] entry [OF this(2)] show "k1 = k2" by simp
  qed
  moreover from sorted have "distinct (fst (run calls w))"
    by (simp add: strict_sorted_iff)
  moreover have "\<forall>i \<in> set (fst (run calls w)). 0 < i \<and> i < fst (register os h c b ?w)"
    using ids zero by (auto simp: register_id)
  ultimately show ?thesis
    using sorted entry by (simp add: register_id)
qed

text \<open>
  A session on the empty table: two registrations, the kill of job 2, the cleanup that
  removes it, and a third registration, which gets the id 3 and not the id 2.
\<close>

theorem register_ids_strictly_increase_witness:
  "jm empty_world = NewJobManager \<and>
   fst (run example_session empty_world) = [1, 2, 3] \<and>
   sorted_wrt (<) (fst (run example_session empty_world)) \<and>
   distinct (fst (run example_session empty_world)) \<and>
   jobs (jm (snd (run example_session empty_world))) 2 = None \<and>
   jobs (jm (snd (run example_session empty_world))) 3 = Some 2"
proof -
  have e: "jm empty_world = NewJobManager" by (simp add: empty_world_def)
  have r: "fst (run example_session empty_world) = [1, 2, 3] \<and>
    jobs (jm (snd (run example_session empty_world))) 2 = None \<and>
    jobs (jm (snd (run example_session empty_world))) 3 = Some 2"
    by (simp add: example_session_def empty_world_def NewJobManager_def register_def Let_def
        KillJob_def GetJob_def process_of_def emit_def store_def CleanupCompletedJobs_def
        cleanup_step_def delete_job_def range_os_def example_os_def)
  from register_ids_strictly_increase [OF e, of example_session]
  have "sorted_wrt (<) (fst (run example_session empty_world))"
    and "distinct (fst (run example_session empty_world))" by simp_all
  with e r show ?thesis by blast
qed

end
